theory Spec2Isabelle
  imports Complex_Main
begin

section \<open>Values, exceptions and the outside world\<close>

text \<open>
  The program is \<^verbatim>\<open>src/strava.py\<close>: a client object holding OAuth credentials, methods that
  send HTTP requests to the provider, and tool functions that reach the client through a
  global variable.

  Python values that come out of \<^verbatim>\<open>response.json()\<close> or out of the environment are
  dynamically typed, so they are modelled by one datatype. \<open>JNull\<close> is Python's \<^verbatim>\<open>None\<close>.
  A decoded object is an association list in insertion order, its keys distinct. Numbers
  with a fraction are left out: the program does arithmetic on one decoded number only (the expiry, an integer
  number of seconds), and floating-point subtraction is not modelled.
\<close>

datatype json =
    JNull
  | JBool bool
  | JInt int
  | JStr string
  | JList "json list"
  | JObj "(string \<times> json) list"

text \<open>
  Exceptions are values. \<open>Exception\<close> and \<open>ValueError\<close> carry the message the source
  builds; the others are raised by the interpreter or a library, and their message is not
  modelled. \<open>JSONDecodeError\<close> is what \<^verbatim>\<open>response.json()\<close> raises on a body that is not JSON,
  \<open>StrptimeError\<close> is the \<^verbatim>\<open>ValueError\<close> that \<^verbatim>\<open>datetime.strptime\<close> raises, \<open>YearError\<close> is
  the \<^verbatim>\<open>ValueError\<close> that \<^verbatim>\<open>datetime.timestamp\<close> raises when it meets a year outside 1 to 9999.
\<close>

datatype exn =
    Exception string
  | ValueError string
  | KeyError string
  | TypeError
  | AttributeError
  | JSONDecodeError
  | StrptimeError
  | YearError

text \<open>The class of an exception object, as \<^verbatim>\<open>type(e)\<close> gives it.\<close>

datatype exn_class =
    Class_Exception
  | Class_ValueError
  | Class_KeyError
  | Class_TypeError
  | Class_AttributeError
  | Class_JSONDecodeError

fun class_of :: "exn \<Rightarrow> exn_class" where
  "class_of (Exception m) = Class_Exception"
| "class_of (ValueError m) = Class_ValueError"
| "class_of (KeyError k) = Class_KeyError"
| "class_of TypeError = Class_TypeError"
| "class_of AttributeError = Class_AttributeError"
| "class_of JSONDecodeError = Class_JSONDecodeError"
| "class_of StrptimeError = Class_ValueError"
| "class_of YearError = Class_ValueError"

text \<open>
  An outbound request is either \<^verbatim>\<open>requests.post(url, data=payload)\<close> or
  \<^verbatim>\<open>requests.get(url, headers={"Authorization": f"Bearer {tok}"}, params=params)\<close>. The
  \<open>Get\<close> constructor keeps the value \<open>tok\<close> that is interpolated after \<^verbatim>\<open>Bearer\<close>, not
  the formatted header string.
\<close>

datatype request =
    Post string "(string \<times> json) list"
  | Get string json "(string \<times> json) list"

text \<open>
  A response: \<^verbatim>\<open>status_code\<close>, \<^verbatim>\<open>text\<close> and the result of \<^verbatim>\<open>json()\<close>, which is \<open>None\<close>
  when the body does not decode.
\<close>

record response =
  status_code :: int
  text_body :: string
  json_body :: "json option"

text \<open>
  The world outside the process. \<open>clock w k\<close> is the value the \<open>k\<close>-th call of
  \<^verbatim>\<open>time.time()\<close> returns (a float, taken as the real number it denotes; Python compares
  a float with an integer exactly), \<open>ticks\<close> counts the calls made so far. \<open>upstream\<close> is
  the provider: its answer may depend on every exchange before. \<open>exchanges\<close> records each
  request the process has sent, with the answer it got, oldest first. \<open>utc_offset w u\<close> is
  the offset of local time from UTC, in seconds, that the platform's \<^verbatim>\<open>localtime\<close> applies at
  the instant \<open>u\<close>, counted in seconds since 1970-01-01T00:00:00Z. \<open>set_rank w xs v\<close> is
  the place that the hash table of a Python set holding the values \<open>xs\<close> gives to \<open>v\<close>: it
  depends on the hashes of the process and decides the order in which the set is listed.
  Log output is not part of the state. The provider always answers: a request that the
  HTTP library gives up with an exception of its own is outside the model.
\<close>

record world =
  clock :: "nat \<Rightarrow> real"
  ticks :: nat
  upstream :: "(request \<times> response) list \<Rightarrow> request \<Rightarrow> response"
  exchanges :: "(request \<times> response) list"
  utc_offset :: "int \<Rightarrow> int"
  set_rank :: "json list \<Rightarrow> json \<Rightarrow> nat"

definition time_time :: "world \<Rightarrow> real \<times> world" where
  "time_time w = (clock w (ticks w), w\<lparr>ticks := Suc (ticks w)\<rparr>)"

definition http :: "world \<Rightarrow> request \<Rightarrow> response \<times> world" where
  "http w req =
     (let resp = upstream w (exchanges w) req
      in (resp, w\<lparr>exchanges := exchanges w @ [(req, resp)]\<rparr>))"

subsection \<open>Python operations on decoded values\<close>

text \<open>Truth value of a value in a condition (\<^verbatim>\<open>if x:\<close>, \<^verbatim>\<open>if not x:\<close>).\<close>

fun truthy :: "json \<Rightarrow> bool" where
  "truthy JNull = False"
| "truthy (JBool b) = b"
| "truthy (JInt i) = (i \<noteq> 0)"
| "truthy (JStr s) = (s \<noteq> [])"
| "truthy (JList xs) = (xs \<noteq> [])"
| "truthy (JObj kvs) = (kvs \<noteq> [])"

text \<open>\<^verbatim>\<open>x - n\<close> for an integer \<open>n\<close>: defined on integers and booleans, a \<^verbatim>\<open>TypeError\<close> otherwise.\<close>

fun py_sub :: "json \<Rightarrow> int \<Rightarrow> exn + int" where
  "py_sub (JInt i) n = Inr (i - n)"
| "py_sub (JBool b) n = Inr ((if b then 1 else 0) - n)"
| "py_sub JNull n = Inl TypeError"
| "py_sub (JStr s) n = Inl TypeError"
| "py_sub (JList xs) n = Inl TypeError"
| "py_sub (JObj kvs) n = Inl TypeError"

text \<open>\<^verbatim>\<open>data[key]\<close> with a string key: a \<^verbatim>\<open>KeyError\<close> on a dict without the key, a
  \<^verbatim>\<open>TypeError\<close> on anything that is not a dict.\<close>

fun subscript :: "json \<Rightarrow> string \<Rightarrow> exn + json" where
  "subscript (JObj kvs) k = (case map_of kvs k of None \<Rightarrow> Inl (KeyError k) | Some v \<Rightarrow> Inr v)"
| "subscript JNull k = Inl TypeError"
| "subscript (JBool b) k = Inl TypeError"
| "subscript (JInt i) k = Inl TypeError"
| "subscript (JStr s) k = Inl TypeError"
| "subscript (JList xs) k = Inl TypeError"

text \<open>\<^verbatim>\<open>a.get(key)\<close>: the value or \<^verbatim>\<open>None\<close> on a dict, an \<^verbatim>\<open>AttributeError\<close> on anything else.\<close>

fun dict_get :: "json \<Rightarrow> string \<Rightarrow> exn + json" where
  "dict_get (JObj kvs) k = (case map_of kvs k of None \<Rightarrow> Inr JNull | Some v \<Rightarrow> Inr v)"
| "dict_get JNull k = Inl AttributeError"
| "dict_get (JBool b) k = Inl AttributeError"
| "dict_get (JInt i) k = Inl AttributeError"
| "dict_get (JStr s) k = Inl AttributeError"
| "dict_get (JList xs) k = Inl AttributeError"

text \<open>Iterating a value: the elements of a list, the keys of a dict, the characters of a
  string; a \<^verbatim>\<open>TypeError\<close> otherwise.\<close>

fun py_iter :: "json \<Rightarrow> exn + json list" where
  "py_iter (JList xs) = Inr xs"
| "py_iter (JObj kvs) = Inr (map (\<lambda>kv. JStr (fst kv)) kvs)"
| "py_iter (JStr s) = Inr (map (\<lambda>ch. JStr [ch]) s)"
| "py_iter JNull = Inl TypeError"
| "py_iter (JBool b) = Inl TypeError"
| "py_iter (JInt i) = Inl TypeError"

text \<open>\<^verbatim>\<open>len(x)\<close>.\<close>

fun py_len :: "json \<Rightarrow> exn + int" where
  "py_len (JList xs) = Inr (int (length xs))"
| "py_len (JObj kvs) = Inr (int (length kvs))"
| "py_len (JStr s) = Inr (int (length s))"
| "py_len JNull = Inl TypeError"
| "py_len (JBool b) = Inl TypeError"
| "py_len (JInt i) = Inl TypeError"

text \<open>\<^verbatim>\<open>response.json()\<close>.\<close>

definition response_json :: "response \<Rightarrow> exn + json" where
  "response_json resp = (case json_body resp of None \<Rightarrow> Inl JSONDecodeError | Some v \<Rightarrow> Inr v)"

section \<open>The client\<close>

text \<open>
  \<^verbatim>\<open>class StravaClient\<close>. The four credentials come from \<^verbatim>\<open>os.getenv\<close>, which returns a
  string or \<^verbatim>\<open>None\<close>; after a refresh the tokens and the expiry hold whatever the decoded
  answer held.
\<close>

record client =
  access_token :: json
  refresh_token :: json
  client_id :: json
  client_secret :: json
  token_expires_at :: json
  base_url :: string

definition StravaClient :: "json \<Rightarrow> json \<Rightarrow> json \<Rightarrow> json \<Rightarrow> client" where
  "StravaClient tok rt cid cs =
     \<lparr>access_token = tok, refresh_token = rt, client_id = cid, client_secret = cs,
      token_expires_at = JInt 0, base_url = ''https://www.strava.com/api/v3''\<rparr>"

text \<open>
  A method returns its result, or the exception it raised, together with the client and
  the world as it left them: an exception does not undo an assignment made before it.
\<close>

type_synonym 'a outcome = "(exn + 'a) \<times> client \<times> world"

definition refresh_url :: string where
  "refresh_url = ''https://www.strava.com/oauth/token''"

definition refresh_request :: "client \<Rightarrow> request" where
  "refresh_request c =
     Post refresh_url
       [(''client_id'', client_id c),
        (''client_secret'', client_secret c),
        (''refresh_token'', refresh_token c),
        (''grant_type'', JStr ''refresh_token'')]"

text \<open>\<^verbatim>\<open>StravaClient.refresh_access_token_if_needed\<close> (lines 24 to 42).\<close>

definition refresh_access_token_if_needed :: "client \<Rightarrow> world \<Rightarrow> unit outcome" where
  "refresh_access_token_if_needed c w =
     (case time_time w of (current_time, w1) \<Rightarrow>
        (case py_sub (token_expires_at c) 300 of
           Inl e \<Rightarrow> (Inl e, c, w1)
         | Inr margin \<Rightarrow>
             if current_time \<ge> of_int margin then
               (case http w1 (refresh_request c) of (resp, w2) \<Rightarrow>
                  if status_code resp = 200 then
                    (case response_json resp of
                       Inl e \<Rightarrow> (Inl e, c, w2)
                     | Inr data \<Rightarrow>
                         (case subscript data ''access_token'' of
                            Inl e \<Rightarrow> (Inl e, c, w2)
                          | Inr a \<Rightarrow>
                              (case subscript data ''refresh_token'' of
                                 Inl e \<Rightarrow> (Inl e, c\<lparr>access_token := a\<rparr>, w2)
                               | Inr r \<Rightarrow>
                                   (case subscript data ''expires_at'' of
                                      Inl e \<Rightarrow>
                                        (Inl e, c\<lparr>access_token := a, refresh_token := r\<rparr>, w2)
                                    | Inr x \<Rightarrow>
                                        (Inr (),
                                         c\<lparr>access_token := a, refresh_token := r,
                                           token_expires_at := x\<rparr>,
                                         w2)))))
                  else (Inl (Exception (''Failed to refresh token: '' @ text_body resp)), c, w2))
             else (Inr (), c, w1)))"

text \<open>
  The keyword arguments the methods take are typed as the callers in the file supply
  them: \<open>limit\<close> and \<open>page\<close> are integers, \<open>before\<close> and \<open>after\<close> are an integer or
  \<^verbatim>\<open>None\<close>, \<open>activity_type\<close> is a string or \<^verbatim>\<open>None\<close>. The two functions below are the
  truth value of such an argument in a condition.
\<close>

fun truthy_int :: "int option \<Rightarrow> bool" where
  "truthy_int None = False"
| "truthy_int (Some i) = (i \<noteq> 0)"

fun truthy_str :: "string option \<Rightarrow> bool" where
  "truthy_str None = False"
| "truthy_str (Some s) = (s \<noteq> [])"

text \<open>
  The comprehension \<^verbatim>\<open>[a for a in activities if a.get("type") == activity_type]\<close>, first
  over the elements and then over a value that still has to be iterated. A string is
  equal to a decoded value only when that value is the same string.
\<close>

fun filter_by_type :: "json list \<Rightarrow> string \<Rightarrow> exn + json list" where
  "filter_by_type [] t = Inr []"
| "filter_by_type (a # as) t =
     (case dict_get a ''type'' of
        Inl e \<Rightarrow> Inl e
      | Inr v \<Rightarrow>
          (case filter_by_type as t of
             Inl e \<Rightarrow> Inl e
           | Inr r \<Rightarrow> Inr (if v = JStr t then a # r else r)))"

definition comprehension_by_type :: "json \<Rightarrow> string \<Rightarrow> exn + json" where
  "comprehension_by_type activities t =
     (case py_iter activities of
        Inl e \<Rightarrow> Inl e
      | Inr xs \<Rightarrow>
          (case filter_by_type xs t of Inl e \<Rightarrow> Inl e | Inr r \<Rightarrow> Inr (JList r)))"

definition activities_params :: "int \<Rightarrow> int option \<Rightarrow> int option \<Rightarrow> int \<Rightarrow> (string \<times> json) list" where
  "activities_params limit before after page =
     [(''per_page'', JInt limit), (''page'', JInt page)]
     @ (if truthy_int before then [(''before'', JInt (the before))] else [])
     @ (if truthy_int after then [(''after'', JInt (the after))] else [])"

definition activities_request ::
  "client \<Rightarrow> int \<Rightarrow> int option \<Rightarrow> int option \<Rightarrow> int \<Rightarrow> request" where
  "activities_request c limit before after page =
     Get (base_url c @ ''/athlete/activities'') (access_token c)
       (activities_params limit before after page)"

text \<open>\<^verbatim>\<open>StravaClient.get_activities\<close> (lines 47 to 89).\<close>

definition get_activities ::
  "client \<Rightarrow> world \<Rightarrow> int \<Rightarrow> int option \<Rightarrow> int option \<Rightarrow> string option \<Rightarrow> int \<Rightarrow> json outcome" where
  "get_activities c w limit before after activity_type page =
     (case refresh_access_token_if_needed c w of
        (Inl e, c1, w1) \<Rightarrow> (Inl e, c1, w1)
      | (Inr u, c1, w1) \<Rightarrow>
          (case http w1 (activities_request c1 limit before after page) of (resp, w2) \<Rightarrow>
             if status_code resp \<noteq> 200 then
               (Inl (Exception (''Failed to fetch activities: '' @ text_body resp)), c1, w2)
             else
               (case response_json resp of
                  Inl e \<Rightarrow> (Inl e, c1, w2)
                | Inr activities \<Rightarrow>
                    if truthy_str activity_type then
                      (case comprehension_by_type activities (the activity_type) of
                         Inl e \<Rightarrow> (Inl e, c1, w2)
                       | Inr filtered \<Rightarrow> (Inr filtered, c1, w2))
                    else (Inr activities, c1, w2))))"

subsection \<open>Calendar dates\<close>

text \<open>
  \<^verbatim>\<open>datetime.strptime(s, "%Y-%m-%d")\<close>: four digits, a hyphen, a month written with one or
  two digits, a hyphen, a day of the month written with one or two digits (or a space and
  one digit), and nothing after it; then the date must exist. Characters are ASCII: the
  other Unicode digits that Python accepts are outside the model.
\<close>

definition is_digit :: "char \<Rightarrow> bool" where
  "is_digit ch = (ch \<in> set ''0123456789'')"

definition is_digit19 :: "char \<Rightarrow> bool" where
  "is_digit19 ch = (ch \<in> set ''123456789'')"

definition digit_val :: "char \<Rightarrow> int" where
  "digit_val ch = int (of_char ch) - 48"

fun parse_month :: "string \<Rightarrow> (int \<times> string) option" where
  "parse_month [] = None"
| "parse_month [a] = (if is_digit19 a then Some (digit_val a, []) else None)"
| "parse_month (a # b # r) =
     (if a = CHR ''1'' \<and> b \<in> set ''012'' then Some (10 + digit_val b, r)
      else if a = CHR ''0'' \<and> is_digit19 b then Some (digit_val b, r)
      else if is_digit19 a then Some (digit_val a, b # r)
      else None)"

fun parse_day :: "string \<Rightarrow> (int \<times> string) option" where
  "parse_day [] = None"
| "parse_day [a] = (if is_digit19 a then Some (digit_val a, []) else None)"
| "parse_day (a # b # r) =
     (if a = CHR ''3'' \<and> b \<in> set ''01'' then Some (30 + digit_val b, r)
      else if a \<in> set ''12'' \<and> is_digit b then Some (10 * digit_val a + digit_val b, r)
      else if a = CHR ''0'' \<and> is_digit19 b then Some (digit_val b, r)
      else if is_digit19 a then Some (digit_val a, b # r)
      else if a = CHR '' '' \<and> is_digit19 b then Some (digit_val b, r)
      else None)"

definition is_leap :: "int \<Rightarrow> bool" where
  "is_leap y = (y mod 4 = 0 \<and> (y mod 100 \<noteq> 0 \<or> y mod 400 = 0))"

definition days_in_month :: "int \<Rightarrow> int \<Rightarrow> int" where
  "days_in_month y m =
     (if m = 2 then (if is_leap y then 29 else 28)
      else if m = 4 \<or> m = 6 \<or> m = 9 \<or> m = 11 then 30
      else 31)"

fun strptime_ymd :: "string \<Rightarrow> exn + (int \<times> int \<times> int)" where
  "strptime_ymd (y1 # y2 # y3 # y4 # h # rest) =
     (if is_digit y1 \<and> is_digit y2 \<and> is_digit y3 \<and> is_digit y4 \<and> h = CHR ''-'' then
        (case parse_month rest of
           Some (m, h2 # rest2) \<Rightarrow>
             (if h2 = CHR ''-'' then
                (case parse_day rest2 of
                   Some (d, []) \<Rightarrow>
                     (let y = 1000 * digit_val y1 + 100 * digit_val y2
                              + 10 * digit_val y3 + digit_val y4
                      in if 1 \<le> y \<and> d \<le> days_in_month y m then Inr (y, m, d)
                         else Inl StrptimeError)
                 | _ \<Rightarrow> Inl StrptimeError)
              else Inl StrptimeError)
         | _ \<Rightarrow> Inl StrptimeError)
      else Inl StrptimeError)"
| "strptime_ymd s = Inl StrptimeError"

text \<open>
  The ordinal of a date in the proleptic Gregorian calendar, as the library counts it:
  0001-01-01 is day 1.
\<close>

definition days_before_year :: "int \<Rightarrow> int" where
  "days_before_year y = (y - 1) * 365 + (y - 1) div 4 - (y - 1) div 100 + (y - 1) div 400"

definition days_before_month :: "int \<Rightarrow> int \<Rightarrow> int" where
  "days_before_month y m = (\<Sum>k \<leftarrow> [1..m - 1]. days_in_month y k)"

definition ymd2ord :: "int \<times> int \<times> int \<Rightarrow> int" where
  "ymd2ord date = (case date of (y, m, d) \<Rightarrow> days_before_year y + days_before_month y m + d)"

text \<open>
  \<^verbatim>\<open>int(dt.timestamp())\<close> for the naive datetime at midnight of a date. The library reads
  the datetime as local time and solves \<open>t = local(u)\<close> for the instant \<open>u\<close>, where \<open>t\<close>
  counts the seconds of the datetime from day 0 and \<open>local(u)\<close> is local time at \<open>u\<close>,
  counted the same way. It probes \<open>local\<close> at \<open>t\<close>, at a first guess \<open>u1\<close>, a day before
  \<open>u1\<close> (the datetimes of \<^verbatim>\<open>strptime\<close> have \<^verbatim>\<open>fold = 0\<close>) and, where the offsets found
  differ, at a second guess; a probe whose local time falls in a year outside 1 to 9999
  raises \<^verbatim>\<open>ValueError\<close>. The functions follow \<^verbatim>\<open>local\<close> and \<^verbatim>\<open>_mktime\<close> of the library's
  \<^verbatim>\<open>datetime.py\<close>; the result is a whole number, so \<^verbatim>\<open>int\<close> changes nothing.
\<close>

definition epoch_seconds :: int where
  "epoch_seconds = ymd2ord (1970, 1, 1) * 86400"

definition localtime_seconds :: "world \<Rightarrow> int \<Rightarrow> exn + int" where
  "localtime_seconds w u =
     (let lt = u + utc_offset w (u - epoch_seconds)
      in if ymd2ord (1, 1, 1) * 86400 \<le> lt \<and> lt < (ymd2ord (9999, 12, 31) + 1) * 86400
         then Inr lt
         else Inl YearError)"

definition second_guess :: "world \<Rightarrow> int \<Rightarrow> int \<Rightarrow> int \<Rightarrow> int \<Rightarrow> exn + int" where
  "second_guess w t u1 t1 b =
     (let u2 = t - b
      in case localtime_seconds w u2 of
           Inl e \<Rightarrow> Inl e
         | Inr t2 \<Rightarrow>
             if t2 = t then Inr u2
             else if t1 = t then Inr u1
             else Inr (max u1 u2))"

definition local_to_seconds :: "world \<Rightarrow> int \<Rightarrow> exn + int" where
  "local_to_seconds w t =
     (case localtime_seconds w t of
        Inl e \<Rightarrow> Inl e
      | Inr lt \<Rightarrow>
          (let a = lt - t; u1 = t - a
           in case localtime_seconds w u1 of
                Inl e \<Rightarrow> Inl e
              | Inr t1 \<Rightarrow>
                  if t1 = t then
                    (case localtime_seconds w (u1 - 86400) of
                       Inl e \<Rightarrow> Inl e
                     | Inr lt2 \<Rightarrow>
                         (let b = lt2 - (u1 - 86400)
                          in if a = b then Inr u1 else second_guess w t u1 t1 b))
                  else second_guess w t u1 t1 (t1 - u1)))"

definition timestamp :: "world \<Rightarrow> int \<times> int \<times> int \<Rightarrow> exn + int" where
  "timestamp w date =
     (case date of (y, m, d) \<Rightarrow>
        if y < 1 \<or> 9999 < y then Inl YearError
        else
          (case local_to_seconds w (ymd2ord date * 86400) of
             Inl e \<Rightarrow> Inl e
           | Inr u \<Rightarrow> Inr (u - epoch_seconds)))"

text \<open>The first two statements of both date-range methods (lines 104, 105 and 122, 123):
  \<open>after\<close> first, then \<open>before\<close>.\<close>

definition date_window :: "world \<Rightarrow> string \<Rightarrow> string \<Rightarrow> exn + (int \<times> int)" where
  "date_window w start_date end_date =
     (case strptime_ymd start_date of
        Inl e \<Rightarrow> Inl e
      | Inr sd \<Rightarrow>
          (case timestamp w sd of
             Inl e \<Rightarrow> Inl e
           | Inr after \<Rightarrow>
               (case strptime_ymd end_date of
                  Inl e \<Rightarrow> Inl e
                | Inr ed \<Rightarrow>
                    (case timestamp w ed of
                       Inl e \<Rightarrow> Inl e
                     | Inr t \<Rightarrow> Inr (after, t + 86400)))))"

text \<open>\<^verbatim>\<open>StravaClient.get_activities_by_date_range\<close> (lines 91 to 107).\<close>

definition get_activities_by_date_range ::
  "client \<Rightarrow> world \<Rightarrow> string \<Rightarrow> string \<Rightarrow> int \<Rightarrow> string option \<Rightarrow> json outcome" where
  "get_activities_by_date_range c w start_date end_date limit activity_type =
     (case date_window w start_date end_date of
        Inl e \<Rightarrow> (Inl e, c, w)
      | Inr (after, before) \<Rightarrow>
          get_activities c w limit (Some before) (Some after) activity_type 1)"

text \<open>
  \<^verbatim>\<open>StravaClient.get_all_activities_by_date_range\<close> (lines 109 to 143). The \<^verbatim>\<open>while\<close>
  loop is the recursive function \<open>get_all_loop\<close>, whose arguments are the variables the
  loop reads and writes; the test on the length comes after the filter has replaced
  \<open>activities\<close>, as in the source.
\<close>

function get_all_loop ::
  "client \<Rightarrow> world \<Rightarrow> int \<Rightarrow> int \<Rightarrow> string option \<Rightarrow> int \<Rightarrow> int \<Rightarrow> json list \<Rightarrow> json list outcome" where
  "get_all_loop c w before after activity_type max_pages page all_activities =
     (if page \<le> max_pages then
        (case get_activities c w 100 (Some before) (Some after) None page of
           (Inl e, c1, w1) \<Rightarrow> (Inl e, c1, w1)
         | (Inr activities, c1, w1) \<Rightarrow>
             if \<not> truthy activities then (Inr all_activities, c1, w1)
             else
               (case (if truthy_str activity_type
                      then comprehension_by_type activities (the activity_type)
                      else Inr activities) of
                  Inl e \<Rightarrow> (Inl e, c1, w1)
                | Inr activities2 \<Rightarrow>
                    (case py_iter activities2 of
                       Inl e \<Rightarrow> (Inl e, c1, w1)
                     | Inr xs \<Rightarrow>
                         (case py_len activities2 of
                            Inl e \<Rightarrow> (Inl e, c1, w1)
                          | Inr n \<Rightarrow>
                              if n < 100 then (Inr (all_activities @ xs), c1, w1)
                              else get_all_loop c1 w1 before after activity_type max_pages
                                     (page + 1) (all_activities @ xs)))))
      else (Inr all_activities, c, w))"
  by pat_completeness auto
termination
  by (relation "measure (\<lambda>(c, w, before, after, activity_type, max_pages, page, all_activities).
                   nat (max_pages + 1 - page))") auto

definition get_all_activities_by_date_range ::
  "client \<Rightarrow> world \<Rightarrow> string \<Rightarrow> string \<Rightarrow> string option \<Rightarrow> int \<Rightarrow> json list outcome" where
  "get_all_activities_by_date_range c w start_date end_date activity_type max_pages =
     (case date_window w start_date end_date of
        Inl e \<Rightarrow> (Inl e, c, w)
      | Inr (after, before) \<Rightarrow> get_all_loop c w before after activity_type max_pages 1 [])"

text \<open>
  \<^verbatim>\<open>StravaClient.get_activity_types\<close> (lines 145 to 151). A Python set holds one of any
  two equal values, and \<^verbatim>\<open>True == 1\<close>; lists and dicts cannot be put into a set.
  \<open>collect_types\<close> builds the set, keeping the values in the order in which they came in;
  \<^verbatim>\<open>list(set(...))\<close> then lists them by the place each has in the hash table, which
  the world gives as \<open>set_rank\<close>.
\<close>

fun hashable :: "json \<Rightarrow> bool" where
  "hashable (JList xs) = False"
| "hashable (JObj kvs) = False"
| "hashable v = True"

fun py_key :: "json \<Rightarrow> json" where
  "py_key (JBool b) = JInt (if b then 1 else 0)"
| "py_key v = v"

definition set_add :: "json list \<Rightarrow> json \<Rightarrow> json list" where
  "set_add acc v = (if py_key v \<in> py_key ` set acc then acc else acc @ [v])"

fun collect_types :: "json list \<Rightarrow> json list \<Rightarrow> exn + json list" where
  "collect_types [] acc = Inr acc"
| "collect_types (a # as) acc =
     (case dict_get a ''type'' of
        Inl e \<Rightarrow> Inl e
      | Inr v \<Rightarrow>
          if truthy v then
            (if hashable v then collect_types as (set_add acc v) else Inl TypeError)
          else collect_types as acc)"

definition get_activity_types :: "client \<Rightarrow> world \<Rightarrow> json list outcome" where
  "get_activity_types c w =
     (case get_activities c w 200 None None None 1 of
        (Inl e, c1, w1) \<Rightarrow> (Inl e, c1, w1)
      | (Inr activities, c1, w1) \<Rightarrow>
          (case py_iter activities of
             Inl e \<Rightarrow> (Inl e, c1, w1)
           | Inr xs \<Rightarrow>
               (case collect_types xs [] of
                  Inl e \<Rightarrow> (Inl e, c1, w1)
                | Inr types \<Rightarrow> (Inr (sort_key (set_rank w1 types) types), c1, w1))))"

text \<open>\<^verbatim>\<open>StravaClient.get_athlete\<close> (lines 153 to 157).\<close>

definition athlete_request :: "client \<Rightarrow> request" where
  "athlete_request c = Get (base_url c @ ''/athlete'') (access_token c) []"

definition get_athlete :: "client \<Rightarrow> world \<Rightarrow> json outcome" where
  "get_athlete c w =
     (case refresh_access_token_if_needed c w of
        (Inl e, c1, w1) \<Rightarrow> (Inl e, c1, w1)
      | (Inr u, c1, w1) \<Rightarrow>
          (case http w1 (athlete_request c1) of (resp, w2) \<Rightarrow>
             (case response_json resp of
                Inl e \<Rightarrow> (Inl e, c1, w2)
              | Inr v \<Rightarrow> (Inr v, c1, w2))))"

text \<open>\<^verbatim>\<open>StravaClient.get_activity_by_id\<close> (lines 159 to 177). The identifier is the string
  the tool passes on.\<close>

definition activity_request :: "client \<Rightarrow> string \<Rightarrow> request" where
  "activity_request c activity_id =
     Get (base_url c @ ''/activities/'' @ activity_id) (access_token c) []"

definition get_activity_by_id :: "client \<Rightarrow> world \<Rightarrow> string \<Rightarrow> json outcome" where
  "get_activity_by_id c w activity_id =
     (case refresh_access_token_if_needed c w of
        (Inl e, c1, w1) \<Rightarrow> (Inl e, c1, w1)
      | (Inr u, c1, w1) \<Rightarrow>
          (case http w1 (activity_request c1 activity_id) of (resp, w2) \<Rightarrow>
             if status_code resp \<noteq> 200 then
               (Inl (Exception (''Failed to fetch activity: '' @ text_body resp)), c1, w2)
             else
               (case response_json resp of
                  Inl e \<Rightarrow> (Inl e, c1, w2)
                | Inr v \<Rightarrow> (Inr v, c1, w2))))"

section \<open>The tools\<close>

text \<open>
  The global \<^verbatim>\<open>strava_client\<close> is \<^verbatim>\<open>None\<close> outside the lifespan of the server and the
  client object inside it. A tool returns its result or exception with the global and the
  world as it left them: the methods change the client object in place, so the global
  refers to the changed client afterwards. \<^verbatim>\<open>test_connection\<close> does not touch the
  client and is not modelled.
\<close>

type_synonym tool_outcome = "(exn + json) \<times> client option \<times> world"

definition app_lifespan_enter :: "json \<Rightarrow> json \<Rightarrow> json \<Rightarrow> json \<Rightarrow> client option" where
  "app_lifespan_enter tok rt cid cs = Some (StravaClient tok rt cid cs)"

definition not_initialized :: exn where
  "not_initialized = ValueError ''Strava client not initialized. Check server logs.''"

text \<open>\<^verbatim>\<open>str(n)\<close> for an integer, used by the f-strings that build the dates of a year.\<close>

fun str_nat :: "nat \<Rightarrow> string" where
  "str_nat n = (if n < 10 then [char_of (48 + n)] else str_nat (n div 10) @ [char_of (48 + n mod 10)])"

definition str_int :: "int \<Rightarrow> string" where
  "str_int i = (if i < 0 then CHR ''-'' # str_nat (nat (- i)) else str_nat (nat i))"

definition get_recent_activities :: "client option \<Rightarrow> world \<Rightarrow> int \<Rightarrow> tool_outcome" where
  "get_recent_activities strava_client w limit =
     (case strava_client of
        None \<Rightarrow> (Inl not_initialized, strava_client, w)
      | Some c \<Rightarrow>
          (case get_activities c w limit None None None 1 of
             (r, c1, w1) \<Rightarrow> (r, Some c1, w1)))"

definition tool_get_activities_by_date_range ::
  "client option \<Rightarrow> world \<Rightarrow> string \<Rightarrow> string \<Rightarrow> string option \<Rightarrow> tool_outcome" where
  "tool_get_activities_by_date_range strava_client w start_date end_date activity_type =
     (case strava_client of
        None \<Rightarrow> (Inl not_initialized, strava_client, w)
      | Some c \<Rightarrow>
          (case get_activities_by_date_range c w start_date end_date 100 activity_type of
             (r, c1, w1) \<Rightarrow> (r, Some c1, w1)))"

definition get_all_activities_in_year ::
  "client option \<Rightarrow> world \<Rightarrow> int \<Rightarrow> string option \<Rightarrow> tool_outcome" where
  "get_all_activities_in_year strava_client w year activity_type =
     (case strava_client of
        None \<Rightarrow> (Inl not_initialized, strava_client, w)
      | Some c \<Rightarrow>
          (let start_date = str_int year @ ''-01-01'';
               end_date = str_int year @ ''-12-31''
           in case get_all_activities_by_date_range c w start_date end_date activity_type 10 of
                (r, c1, w1) \<Rightarrow> (map_sum id JList r, Some c1, w1)))"

definition get_available_activity_types :: "client option \<Rightarrow> world \<Rightarrow> tool_outcome" where
  "get_available_activity_types strava_client w =
     (case strava_client of
        None \<Rightarrow> (Inl not_initialized, strava_client, w)
      | Some c \<Rightarrow>
          (case get_activity_types c w of
             (r, c1, w1) \<Rightarrow> (map_sum id JList r, Some c1, w1)))"

definition get_athlete_profile :: "client option \<Rightarrow> world \<Rightarrow> tool_outcome" where
  "get_athlete_profile strava_client w =
     (case strava_client of
        None \<Rightarrow> (Inl not_initialized, strava_client, w)
      | Some c \<Rightarrow>
          (case get_athlete c w of
             (r, c1, w1) \<Rightarrow> (r, Some c1, w1)))"

definition get_activity_details :: "client option \<Rightarrow> world \<Rightarrow> string \<Rightarrow> tool_outcome" where
  "get_activity_details strava_client w activity_id =
     (case strava_client of
        None \<Rightarrow> (Inl not_initialized, strava_client, w)
      | Some c \<Rightarrow>
          (case get_activity_by_id c w activity_id of
             (r, c1, w1) \<Rightarrow> (r, Some c1, w1)))"

text \<open>
  The server dispatches a tool call by the name of the tool. \<open>tool_call\<close> lists the six
  tools that use the client, with their arguments.
\<close>

datatype tool_call =
    Recent_activities int
  | Activities_by_date_range string string "string option"
  | All_activities_in_year int "string option"
  | Available_activity_types
  | Athlete_profile
  | Activity_details string

fun invoke :: "tool_call \<Rightarrow> client option \<Rightarrow> world \<Rightarrow> tool_outcome" where
  "invoke (Recent_activities limit) sc w = get_recent_activities sc w limit"
| "invoke (Activities_by_date_range s e t) sc w = tool_get_activities_by_date_range sc w s e t"
| "invoke (All_activities_in_year y t) sc w = get_all_activities_in_year sc w y t"
| "invoke Available_activity_types sc w = get_available_activity_types sc w"
| "invoke Athlete_profile sc w = get_athlete_profile sc w"
| "invoke (Activity_details i) sc w = get_activity_details sc w i"

text \<open>
  The three methods that send a data request, as one type, and the request each of them
  sends with the client's token of the moment.
\<close>

datatype data_call =
    Call_get_activities int "int option" "int option" "string option" int
  | Call_get_athlete
  | Call_get_activity_by_id string

fun perform :: "data_call \<Rightarrow> client \<Rightarrow> world \<Rightarrow> json outcome" where
  "perform (Call_get_activities limit before after activity_type page) c w =
     get_activities c w limit before after activity_type page"
| "perform Call_get_athlete c w = get_athlete c w"
| "perform (Call_get_activity_by_id activity_id) c w = get_activity_by_id c w activity_id"

fun data_request :: "data_call \<Rightarrow> client \<Rightarrow> request" where
  "data_request (Call_get_activities limit before after activity_type page) c =
     activities_request c limit before after page"
| "data_request Call_get_athlete c = athlete_request c"
| "data_request (Call_get_activity_by_id activity_id) c = activity_request c activity_id"

declare get_all_loop.simps [simp del]
declare str_nat.simps [simp del]

section \<open>The lifetime of the process\<close>

text \<open>
  Between the start and the end of the server, the tools are called one after the other;
  a tool that raises hands its exception to its caller, and the process goes on with the
  client as the tool left it.
\<close>

fun serve :: "tool_call list \<Rightarrow> client option \<Rightarrow> world \<Rightarrow> client option \<times> world" where
  "serve [] strava_client w = (strava_client, w)"
| "serve (call # calls) strava_client w =
     (case invoke call strava_client w of (r, sc1, w1) \<Rightarrow> serve calls sc1 w1)"

text \<open>
  \<open>grants tok x\<close>: the exchange \<open>x\<close> is a refresh request that was answered with status
  200 and a body whose \<^verbatim>\<open>access_token\<close> is \<open>tok\<close>. \<open>bearers_granted earlier later\<close>: every
  \<^verbatim>\<open>GET\<close> of \<open>later\<close> bears a token that an exchange before it (in \<open>earlier\<close> or in
  \<open>later\<close>) has granted.
\<close>

definition grants :: "json \<Rightarrow> request \<times> response \<Rightarrow> bool" where
  "grants tok x =
     (case x of
        (Post url payload, resp) \<Rightarrow>
          url = refresh_url \<and> status_code resp = 200 \<and>
          (case json_body resp of
             None \<Rightarrow> False
           | Some data \<Rightarrow> subscript data ''access_token'' = Inr tok)
      | (Get url bearer params, resp) \<Rightarrow> False)"

fun bearers_granted :: "(request \<times> response) list \<Rightarrow> (request \<times> response) list \<Rightarrow> bool" where
  "bearers_granted earlier [] = True"
| "bearers_granted earlier (x # later) =
     ((case fst x of
         Get url bearer params \<Rightarrow> list_ex (grants bearer) earlier
       | Post url payload \<Rightarrow> True)
      \<and> bearers_granted (earlier @ [x]) later)"

text \<open>
  What holds of the client \<open>c\<close> and the world at every moment of a process that started
  with the client \<open>c0\<close>.
\<close>

definition lifetime_inv :: "client \<Rightarrow> client \<Rightarrow> world \<Rightarrow> bool" where
  "lifetime_inv c0 c w =
     (bearers_granted [] (exchanges w)
      \<and> (token_expires_at c = JInt 0 \<or> list_ex (grants (access_token c)) (exchanges w))
      \<and> (if exchanges w = [] then c = c0 else fst (hd (exchanges w)) = refresh_request c0))"

section \<open>What the provider is observed to do\<close>

text \<open>
  \<open>page_fetches\<close> lists the query parameters of the \<^verbatim>\<open>GET\<close> requests of a history, in the
  order in which they were sent. \<open>grants_tokens\<close> says that the provider answers every
  refresh request with status 200 and a body holding the two tokens and an integer expiry;
  \<open>serves_page\<close> says that it answers every request for page \<open>p\<close> of the window, 100 to
  the page, with status 200 and the given content.
\<close>

fun get_params :: "request \<Rightarrow> (string \<times> json) list list" where
  "get_params (Post url payload) = []"
| "get_params (Get url tok params) = [params]"

definition page_fetches :: "(request \<times> response) list \<Rightarrow> (string \<times> json) list list" where
  "page_fetches history = concat (map (\<lambda>x. get_params (fst x)) history)"

definition grants_tokens :: "((request \<times> response) list \<Rightarrow> request \<Rightarrow> response) \<Rightarrow> bool" where
  "grants_tokens provider =
     (\<forall>history c. \<exists>data a r x.
        status_code (provider history (refresh_request c)) = 200
        \<and> json_body (provider history (refresh_request c)) = Some data
        \<and> subscript data ''access_token'' = Inr a
        \<and> subscript data ''refresh_token'' = Inr r
        \<and> subscript data ''expires_at'' = Inr (JInt x))"

definition serves_page ::
  "((request \<times> response) list \<Rightarrow> request \<Rightarrow> response) \<Rightarrow> int \<Rightarrow> int \<Rightarrow> int \<Rightarrow> json \<Rightarrow> bool" where
  "serves_page provider before after p content =
     (\<forall>history c.
        status_code (provider history (activities_request c 100 (Some before) (Some after) p)) = 200
        \<and> json_body (provider history (activities_request c 100 (Some before) (Some after) p))
            = Some content)"

text \<open>
  An activity, as far as the program reads it: a decoded object whose \<^verbatim>\<open>type\<close>, when it
  has one, is a value that can be put into a set.
\<close>

definition is_activity :: "json \<Rightarrow> bool" where
  "is_activity a =
     (case a of
        JObj kvs \<Rightarrow> (case map_of kvs ''type'' of None \<Rightarrow> True | Some v \<Rightarrow> hashable v)
      | _ \<Rightarrow> False)"

section \<open>Fixtures\<close>

text \<open>
  Concrete clients, answers and providers on which the theorems below are run: a world
  whose clock always shows \<open>t\<close>, whose provider answers by the request alone, which is
  in the UTC time zone, and whose sets list their values in the order in which they came
  in.
\<close>

definition fixture_world :: "real \<Rightarrow> (request \<Rightarrow> response) \<Rightarrow> world" where
  "fixture_world t server =
     \<lparr>clock = (\<lambda>k. t), ticks = 0, upstream = (\<lambda>history. server), exchanges = [],
      utc_offset = (\<lambda>u. 0), set_rank = (\<lambda>xs v. 0)\<rparr>"

definition fixture_client :: client where
  "fixture_client = StravaClient (JStr ''A0'') (JStr ''R0'') (JStr ''id'') (JStr ''secret'')"

definition token_grant :: response where
  "token_grant =
     \<lparr>status_code = 200, text_body = ''grant'',
      json_body = Some (JObj [(''access_token'', JStr ''A1''), (''refresh_token'', JStr ''R1''),
                              (''expires_at'', JInt 5000)])\<rparr>"

definition refreshed_client :: client where
  "refreshed_client =
     fixture_client\<lparr>access_token := JStr ''A1'', refresh_token := JStr ''R1'',
                     token_expires_at := JInt 5000\<rparr>"

definition denial :: response where
  "denial = \<lparr>status_code = 401, text_body = ''denied'', json_body = None\<rparr>"

definition denying_server :: "request \<Rightarrow> response" where
  "denying_server req = denial"

fun granting_server :: "response \<Rightarrow> request \<Rightarrow> response" where
  "granting_server answer (Post url payload) = token_grant"
| "granting_server answer (Get url tok params) = answer"

definition not_found :: response where
  "not_found = \<lparr>status_code = 404, text_body = ''gone'',
                 json_body = Some (JObj [(''message'', JStr ''Record Not Found'')])\<rparr>"

definition server_error :: response where
  "server_error = \<lparr>status_code = 500, text_body = ''gone'',
                 json_body = Some (JObj [(''message'', JStr ''Record Not Found'')])\<rparr>"

definition activity :: "string \<Rightarrow> json" where
  "activity t = JObj [(''name'', JStr ''outing''), (''type'', JStr t)]"

definition page_answer :: "json list \<Rightarrow> response" where
  "page_answer xs = \<lparr>status_code = 200, text_body = ''page'', json_body = Some (JList xs)\<rparr>"

fun paged_server :: "(int \<Rightarrow> json list) \<Rightarrow> request \<Rightarrow> response" where
  "paged_server pages (Post url payload) = token_grant"
| "paged_server pages (Get url tok params) =
     (case map_of params ''page'' of
        Some (JInt p) \<Rightarrow> page_answer (pages p)
      | _ \<Rightarrow> not_found)"

definition four_pages :: "int \<Rightarrow> json list" where
  "four_pages p =
     (if p = 1 \<or> p = 2 then replicate 100 (activity ''Run'')
      else if p = 3 then replicate 100 (activity ''Ride'')
      else if p = 4 then replicate 40 (activity ''Swim'')
      else [])"

definition mixed_pages :: "int \<Rightarrow> json list" where
  "mixed_pages p =
     (if p = 1 then replicate 99 (activity ''Run'') @ [activity ''Ride'']
      else if p = 2 then [activity ''Run'']
      else [])"

definition sample_page :: "int \<Rightarrow> json list" where
  "sample_page p =
     [activity ''Run'', activity ''Ride'', JObj [(''name'', JStr ''untyped'')], activity ''Run'']"

text \<open>
  A provider whose refresh answer repeats the access token the process started with, and
  the clock of New York in 2024: four hours behind UTC from 2024-03-10T07:00:00Z to
  2024-11-03T06:00:00Z, five hours behind before and after.
\<close>

definition echo_grant :: response where
  "echo_grant =
     \<lparr>status_code = 200, text_body = ''grant'',
      json_body = Some (JObj [(''access_token'', JStr ''A0''), (''refresh_token'', JStr ''R1''),
                              (''expires_at'', JInt 5000)])\<rparr>"

fun echoing_server :: "response \<Rightarrow> request \<Rightarrow> response" where
  "echoing_server answer (Post url payload) = echo_grant"
| "echoing_server answer (Get url tok params) = answer"

definition new_york_offset :: "int \<Rightarrow> int" where
  "new_york_offset u = (if 1710054000 \<le> u \<and> u < 1730613600 then - 14400 else - 18000)"

definition new_york_world :: world where
  "new_york_world = (fixture_world 1000 (paged_server (\<lambda>p. [])))\<lparr>utc_offset := new_york_offset\<rparr>"

section \<open>The token step\<close>

lemma refresh_world:
  "refresh_access_token_if_needed c w = (r, c', w') \<Longrightarrow>
     clock w' = clock w \<and> ticks w' = Suc (ticks w) \<and> upstream w' = upstream w
     \<and> utc_offset w' = utc_offset w"
  by (auto simp: refresh_access_token_if_needed_def time_time_def http_def Let_def
           split: sum.splits if_splits prod.splits)

lemma refresh_not_needed:
  "py_sub (token_expires_at c) 300 = Inr m \<Longrightarrow> clock w (ticks w) < of_int m \<Longrightarrow>
   refresh_access_token_if_needed c w = (Inr (), c, w\<lparr>ticks := Suc (ticks w)\<rparr>)"
  by (simp add: refresh_access_token_if_needed_def time_time_def)

lemma refresh_failed:
  "py_sub (token_expires_at c) 300 = Inr m \<Longrightarrow> of_int m \<le> clock w (ticks w) \<Longrightarrow>
   resp = upstream w (exchanges w) (refresh_request c) \<Longrightarrow>
   status_code resp \<noteq> 200 \<Longrightarrow>
   refresh_access_token_if_needed c w =
     (Inl (Exception (''Failed to refresh token: '' @ text_body resp)), c,
      w\<lparr>ticks := Suc (ticks w), exchanges := exchanges w @ [(refresh_request c, resp)]\<rparr>)"
  by (simp add: refresh_access_token_if_needed_def time_time_def http_def Let_def)

lemma refresh_ok:
  "py_sub (token_expires_at c) 300 = Inr m \<Longrightarrow> of_int m \<le> clock w (ticks w) \<Longrightarrow>
   resp = upstream w (exchanges w) (refresh_request c) \<Longrightarrow>
   status_code resp = 200 \<Longrightarrow> json_body resp = Some data \<Longrightarrow>
   subscript data ''access_token'' = Inr a \<Longrightarrow>
   subscript data ''refresh_token'' = Inr r \<Longrightarrow>
   subscript data ''expires_at'' = Inr x \<Longrightarrow>
   refresh_access_token_if_needed c w =
     (Inr (), c\<lparr>access_token := a, refresh_token := r, token_expires_at := x\<rparr>,
      w\<lparr>ticks := Suc (ticks w), exchanges := exchanges w @ [(refresh_request c, resp)]\<rparr>)"
  by (simp add: refresh_access_token_if_needed_def time_time_def http_def Let_def
        response_json_def)

lemma fixture_margin: "py_sub (token_expires_at fixture_client) 300 = Inr (- 300)"
  by (simp add: fixture_client_def StravaClient_def)

lemma fixture_refresh_denied:
  "refresh_access_token_if_needed fixture_client (fixture_world 1000 denying_server) =
     (Inl (Exception ''Failed to refresh token: denied''), fixture_client,
      (fixture_world 1000 denying_server)
        \<lparr>ticks := 1, exchanges := [(refresh_request fixture_client, denial)]\<rparr>)"
  using refresh_failed [OF fixture_margin, of "fixture_world 1000 denying_server" denial]
  by (simp add: fixture_world_def denying_server_def denial_def)

lemma fixture_refresh_granted:
  "refresh_access_token_if_needed fixture_client (fixture_world 1000 (granting_server answer)) =
     (Inr (), refreshed_client,
      (fixture_world 1000 (granting_server answer))
        \<lparr>ticks := 1, exchanges := [(refresh_request fixture_client, token_grant)]\<rparr>)"
  using refresh_ok [OF fixture_margin, of "fixture_world 1000 (granting_server answer)" token_grant
                      _ "JStr ''A1''" "JStr ''R1''" "JInt 5000"]
  by (simp add: fixture_world_def refresh_request_def token_grant_def refreshed_client_def)

text \<open>
  C7. When the token endpoint answers with a status other than 200, the call raises and
  the client is what it was: the access token, the refresh token and the expiry keep their
  values. The call returns normally after a refresh exactly when the answer has status 200
  and its decoded body holds the three keys, and then the three fields are the three
  values of that body and nothing else of the client has changed. (An answer with status
  200 whose body lacks a key is neither case: the call raises \<^verbatim>\<open>KeyError\<close> after the
  assignments made before it.)
\<close>

theorem refresh_replaces_all_or_nothing:
  assumes "refresh_access_token_if_needed c w = (r, c', w')"
      and "exchanges w' = exchanges w @ [(req, resp)]"
  shows "(status_code resp \<noteq> 200 \<longrightarrow>
            r = Inl (Exception (''Failed to refresh token: '' @ text_body resp)) \<and> c' = c)
       \<and> (r = Inr () \<longleftrightarrow>
            status_code resp = 200 \<and>
            (\<exists>data a rt x. json_body resp = Some data
               \<and> subscript data ''access_token'' = Inr a
               \<and> subscript data ''refresh_token'' = Inr rt
               \<and> subscript data ''expires_at'' = Inr x))
       \<and> (r = Inr () \<longrightarrow>
            (\<exists>data a rt x. json_body resp = Some data
               \<and> subscript data ''access_token'' = Inr a
               \<and> subscript data ''refresh_token'' = Inr rt
               \<and> subscript data ''expires_at'' = Inr x
               \<and> c' = c\<lparr>access_token := a, refresh_token := rt, token_expires_at := x\<rparr>))"
  using assms
  by (auto simp: refresh_access_token_if_needed_def time_time_def http_def Let_def
        response_json_def
      split: sum.splits if_splits prod.splits option.splits)

theorem refresh_replaces_all_or_nothing_witness:
  "refresh_access_token_if_needed fixture_client (fixture_world 1000 denying_server) =
     (Inl (Exception ''Failed to refresh token: denied''), fixture_client,
      (fixture_world 1000 denying_server)
        \<lparr>ticks := 1, exchanges := [(refresh_request fixture_client, denial)]\<rparr>)
   \<and> status_code denial \<noteq> 200
   \<and> refresh_access_token_if_needed fixture_client
         (fixture_world 1000 (granting_server not_found)) =
     (Inr (), refreshed_client,
      (fixture_world 1000 (granting_server not_found))
        \<lparr>ticks := 1, exchanges := [(refresh_request fixture_client, token_grant)]\<rparr>)
   \<and> status_code token_grant = 200
   \<and> access_token fixture_client = JStr ''A0''
   \<and> refresh_token fixture_client = JStr ''R0''
   \<and> token_expires_at fixture_client = JInt 0
   \<and> access_token refreshed_client = JStr ''A1''
   \<and> refresh_token refreshed_client = JStr ''R1''
   \<and> token_expires_at refreshed_client = JInt 5000"
proof -
  let ?w = "fixture_world 1000 denying_server"
  let ?w' = "?w\<lparr>ticks := 1, exchanges := [(refresh_request fixture_client, denial)]\<rparr>"
  let ?v = "fixture_world 1000 (granting_server not_found)"
  let ?v' = "?v\<lparr>ticks := 1, exchanges := [(refresh_request fixture_client, token_grant)]\<rparr>"
  have sent: "exchanges ?w' = exchanges ?w @ [(refresh_request fixture_client, denial)]"
    and sent': "exchanges ?v' = exchanges ?v @ [(refresh_request fixture_client, token_grant)]"
    by (simp_all add: fixture_world_def)
  have fixed: "status_code denial \<noteq> 200 \<and> status_code token_grant = 200
     \<and> access_token fixture_client = JStr ''A0''
     \<and> refresh_token fixture_client = JStr ''R0''
     \<and> token_expires_at fixture_client = JInt 0
     \<and> access_token refreshed_client = JStr ''A1''
     \<and> refresh_token refreshed_client = JStr ''R1''
     \<and> token_expires_at refreshed_client = JInt 5000"
    by (simp add: denial_def token_grant_def fixture_client_def StravaClient_def
          refreshed_client_def)
  from refresh_replaces_all_or_nothing [OF fixture_refresh_denied sent]
    refresh_replaces_all_or_nothing [OF fixture_refresh_granted sent']
    fixture_refresh_denied fixture_refresh_granted [of not_found] fixed
  show ?thesis by blast
qed

section \<open>The data requests\<close>

lemma perform_refresh_raised:
  "refresh_access_token_if_needed c w = (Inl e, c1, w1) \<Longrightarrow> perform call c w = (Inl e, c1, w1)"
  by (cases call) (simp_all add: get_activities_def get_athlete_def get_activity_by_id_def)

lemma perform_refresh_returned:
  assumes "refresh_access_token_if_needed c w = (Inr u, c1, w1)"
  shows "\<exists>r. perform call c w =
           (r, c1, w1\<lparr>exchanges := exchanges w1 @
                  [(data_request call c1, upstream w1 (exchanges w1) (data_request call c1))]\<rparr>)"
  using assms
  by (cases call)
     (simp_all add: get_activities_def get_athlete_def get_activity_by_id_def http_def Let_def
        split: sum.splits)

lemma fixture_get_athlete:
  "get_athlete fixture_client (fixture_world 1000 (granting_server answer)) =
     (response_json answer, refreshed_client,
      (fixture_world 1000 (granting_server answer))
        \<lparr>ticks := 1,
         exchanges := [(refresh_request fixture_client, token_grant),
                       (athlete_request refreshed_client, answer)]\<rparr>)"
  unfolding get_athlete_def fixture_refresh_granted
  by (simp add: http_def Let_def fixture_world_def athlete_request_def split: sum.splits)

lemma fixture_get_activities_failed:
  "status_code answer \<noteq> 200 \<Longrightarrow>
   get_activities fixture_client (fixture_world 1000 (granting_server answer))
       limit before after activity_type page =
     (Inl (Exception (''Failed to fetch activities: '' @ text_body answer)), refreshed_client,
      (fixture_world 1000 (granting_server answer))
        \<lparr>ticks := 1,
         exchanges := [(refresh_request fixture_client, token_grant),
                       (activities_request refreshed_client limit before after page, answer)]\<rparr>)"
  unfolding get_activities_def fixture_refresh_granted
  by (simp add: http_def Let_def fixture_world_def activities_request_def)

lemma fixture_get_activity_by_id_failed:
  "status_code answer \<noteq> 200 \<Longrightarrow>
   get_activity_by_id fixture_client (fixture_world 1000 (granting_server answer)) activity_id =
     (Inl (Exception (''Failed to fetch activity: '' @ text_body answer)), refreshed_client,
      (fixture_world 1000 (granting_server answer))
        \<lparr>ticks := 1,
         exchanges := [(refresh_request fixture_client, token_grant),
                       (activity_request refreshed_client activity_id, answer)]\<rparr>)"
  unfolding get_activity_by_id_def fixture_refresh_granted
  by (simp add: http_def Let_def fixture_world_def activity_request_def)

text \<open>
  C1. Let a data request (\<^verbatim>\<open>get_activities\<close>, \<^verbatim>\<open>get_athlete\<close> or \<^verbatim>\<open>get_activity_by_id\<close>)
  start with an integer expiry, and let \<open>T\<close> be the time it reads. If
  \<open>T \<ge> token_expires_at - 300\<close>, the first thing sent is the refresh request, and the
  data request is sent only if the refresh succeeded, right after it and with the access
  token that the refresh answer held. If \<open>T < token_expires_at - 300\<close>, the client is
  unchanged and the data request is the only thing sent.
\<close>

theorem refresh_iff_within_margin:
  assumes "token_expires_at c = JInt expires_at"
      and "perform call c w = (r, c', w')"
  shows "if of_int (expires_at - 300) \<le> clock w (ticks w)
         then (\<exists>resp. resp = upstream w (exchanges w) (refresh_request c) \<and>
                ((\<exists>e. r = Inl e) \<and> exchanges w' = exchanges w @ [(refresh_request c, resp)]
                 \<or> (\<exists>resp' data. exchanges w' = exchanges w @
                         [(refresh_request c, resp), (data_request call c', resp')]
                       \<and> status_code resp = 200 \<and> json_body resp = Some data
                       \<and> subscript data ''access_token'' = Inr (access_token c'))))
         else c' = c \<and> (\<exists>resp'. exchanges w' = exchanges w @ [(data_request call c, resp')])"
proof (cases "of_int (expires_at - 300) \<le> clock w (ticks w)")
  case False
  have m: "py_sub (token_expires_at c) 300 = Inr (expires_at - 300)"
    using assms(1) by simp
  from False have "clock w (ticks w) < of_int (expires_at - 300)" by simp
  from refresh_not_needed [OF m this] perform_refresh_returned [of c w "()" c _ call]
  obtain r0 where "perform call c w = (r0, c, w\<lparr>ticks := Suc (ticks w)\<rparr>
        \<lparr>exchanges := exchanges (w\<lparr>ticks := Suc (ticks w)\<rparr>) @
           [(data_request call c, upstream (w\<lparr>ticks := Suc (ticks w)\<rparr>)
               (exchanges (w\<lparr>ticks := Suc (ticks w)\<rparr>)) (data_request call c))]\<rparr>)"
    by blast
  with assms(2) False show ?thesis by auto
next
  case True
  obtain r0 c1 w1 where rf: "refresh_access_token_if_needed c w = (r0, c1, w1)"
    by (metis prod_cases3)
  show ?thesis
  proof (cases r0)
    case (Inl e)
    with rf perform_refresh_raised [of c w e c1 w1 call] assms(2)
    have eq: "r = Inl e" "c' = c1" "w' = w1" by simp_all
    from rf Inl True assms(1) have "exchanges w1 = exchanges w @
        [(refresh_request c, upstream w (exchanges w) (refresh_request c))]"
      by (auto simp: refresh_access_token_if_needed_def time_time_def http_def Let_def
            split: sum.splits if_splits prod.splits)
    with eq True show ?thesis by simp
  next
    case (Inr u)
    from rf Inr True assms(1) have ex: "exchanges w1 = exchanges w @
        [(refresh_request c, upstream w (exchanges w) (refresh_request c))]"
      and ok: "status_code (upstream w (exchanges w) (refresh_request c)) = 200"
      and tok: "\<exists>data. json_body (upstream w (exchanges w) (refresh_request c)) = Some data
                  \<and> subscript data ''access_token'' = Inr (access_token c1)"
      by (auto simp: refresh_access_token_if_needed_def time_time_def http_def Let_def
            response_json_def
            split: sum.splits if_splits prod.splits option.splits)
    from rf Inr perform_refresh_returned [of c w u c1 w1 call] assms(2)
    have "c' = c1" and "exchanges w' = exchanges w1 @
        [(data_request call c1, upstream w1 (exchanges w1) (data_request call c1))]"
      by auto
    with ex ok tok True show ?thesis by auto
  qed
qed

theorem refresh_iff_within_margin_witness:
  "token_expires_at fixture_client = JInt 0
   \<and> perform Call_get_athlete fixture_client (fixture_world 1000 (granting_server not_found)) =
       (Inr (JObj [(''message'', JStr ''Record Not Found'')]), refreshed_client,
        (fixture_world 1000 (granting_server not_found))
          \<lparr>ticks := 1,
           exchanges := [(refresh_request fixture_client, token_grant),
                         (data_request Call_get_athlete refreshed_client, not_found)]\<rparr>)
   \<and> real_of_int (0 - 300) \<le> clock (fixture_world 1000 (granting_server not_found))
                                  (ticks (fixture_world 1000 (granting_server not_found)))
   \<and> status_code token_grant = 200
   \<and> subscript (the (json_body token_grant)) ''access_token'' = Inr (access_token refreshed_client)"
proof -
  have exp: "token_expires_at fixture_client = JInt 0"
    by (simp add: fixture_client_def StravaClient_def)
  have run: "perform Call_get_athlete fixture_client (fixture_world 1000 (granting_server not_found)) =
       (Inr (JObj [(''message'', JStr ''Record Not Found'')]), refreshed_client,
        (fixture_world 1000 (granting_server not_found))
          \<lparr>ticks := 1,
           exchanges := [(refresh_request fixture_client, token_grant),
                         (data_request Call_get_athlete refreshed_client, not_found)]\<rparr>)"
    by (simp add: fixture_get_athlete response_json_def not_found_def)
  have rest: "real_of_int (0 - 300) \<le> clock (fixture_world 1000 (granting_server not_found))
                                  (ticks (fixture_world 1000 (granting_server not_found)))
   \<and> status_code token_grant = 200
   \<and> subscript (the (json_body token_grant)) ''access_token'' = Inr (access_token refreshed_client)"
    by (simp add: fixture_world_def token_grant_def refreshed_client_def)
  from refresh_iff_within_margin [OF exp run] exp run rest show ?thesis
    by blast
qed

text \<open>
  C3, as the code has it. When a refresh is due and the token endpoint answers with a
  status other than 200, the token step, and with it every data request, raises an
  \<^verbatim>\<open>Exception\<close> whose message is \<^verbatim>\<open>Failed to refresh token: \<close> followed by the body of the
  answer. One refresh request has been sent and nothing after it; the client is unchanged.
  The class of the error is the built-in \<^verbatim>\<open>Exception\<close>, which is not the class of the error
  raised for a missing client.
\<close>

theorem refresh_failure_raises_exception:
  assumes "py_sub (token_expires_at c) 300 = Inr margin"
      and "of_int margin \<le> clock w (ticks w)"
      and "resp = upstream w (exchanges w) (refresh_request c)"
      and "status_code resp \<noteq> 200"
      and "e = Exception (''Failed to refresh token: '' @ text_body resp)"
      and "w' = w\<lparr>ticks := Suc (ticks w), exchanges := exchanges w @ [(refresh_request c, resp)]\<rparr>"
  shows "refresh_access_token_if_needed c w = (Inl e, c, w')
       \<and> perform call c w = (Inl e, c, w')
       \<and> class_of e = Class_Exception
       \<and> class_of e \<noteq> class_of not_initialized"
  using refresh_failed [OF assms(1-4)] assms(5,6)
  by (simp add: perform_refresh_raised not_initialized_def)

theorem refresh_failure_raises_exception_witness:
  "py_sub (token_expires_at fixture_client) 300 = Inr (- 300)
   \<and> real_of_int (- 300) \<le> clock (fixture_world 1000 denying_server) (ticks (fixture_world 1000 denying_server))
   \<and> status_code denial \<noteq> 200
   \<and> perform (Call_get_activity_by_id ''77'') fixture_client (fixture_world 1000 denying_server) =
       (Inl (Exception ''Failed to refresh token: denied''), fixture_client,
        (fixture_world 1000 denying_server)
          \<lparr>ticks := 1, exchanges := [(refresh_request fixture_client, denial)]\<rparr>)"
proof -
  let ?w = "fixture_world 1000 denying_server"
  have due: "real_of_int (- 300) \<le> clock ?w (ticks ?w)"
    by (simp add: fixture_world_def)
  have resp: "denial = upstream ?w (exchanges ?w) (refresh_request fixture_client)"
    by (simp add: fixture_world_def denying_server_def)
  have st: "status_code denial \<noteq> 200"
    by (simp add: denial_def)
  from refresh_failure_raises_exception [OF fixture_margin due resp st refl refl,
         of "Call_get_activity_by_id ''77''"]
  show ?thesis
    using due st by (simp add: fixture_margin denial_def fixture_world_def)
qed

text \<open>
  C3, as the claim has it, fails: the error of a failed refresh and the error of a failed
  data request are objects of one and the same class, told apart by their messages only.
\<close>

theorem auth_error_not_distinctly_typed:
  "fst (refresh_access_token_if_needed fixture_client (fixture_world 1000 denying_server)) =
     Inl (Exception ''Failed to refresh token: denied'')
   \<and> fst (get_activities fixture_client (fixture_world 1000 (granting_server denial))
            30 None None None 1) =
     Inl (Exception ''Failed to fetch activities: denied'')
   \<and> class_of (Exception ''Failed to refresh token: denied'') =
     class_of (Exception ''Failed to fetch activities: denied'')"
  by (simp add: fixture_refresh_denied fixture_get_activities_failed denial_def)

text \<open>
  C4, as the code has it. After the token step has returned, \<^verbatim>\<open>get_activities\<close> and
  \<^verbatim>\<open>get_activity_by_id\<close> raise an \<^verbatim>\<open>Exception\<close> whenever the answer to their request has a
  status other than 200; its message is \<^verbatim>\<open>Failed to fetch activities: \<close> or
  \<^verbatim>\<open>Failed to fetch activity: \<close> followed by the body of the answer.
\<close>

theorem fetch_failure_raises_exception:
  assumes "refresh_access_token_if_needed c w = (Inr (), c1, w1)"
      and "resp_a = upstream w1 (exchanges w1) (activities_request c1 limit before after page)"
      and "resp_b = upstream w1 (exchanges w1) (activity_request c1 activity_id)"
  shows "(status_code resp_a \<noteq> 200 \<longrightarrow>
            get_activities c w limit before after activity_type page =
              (Inl (Exception (''Failed to fetch activities: '' @ text_body resp_a)), c1,
               w1\<lparr>exchanges := exchanges w1 @
                     [(activities_request c1 limit before after page, resp_a)]\<rparr>))
       \<and> (status_code resp_b \<noteq> 200 \<longrightarrow>
            get_activity_by_id c w activity_id =
              (Inl (Exception (''Failed to fetch activity: '' @ text_body resp_b)), c1,
               w1\<lparr>exchanges := exchanges w1 @ [(activity_request c1 activity_id, resp_b)]\<rparr>))"
  using assms
  by (simp add: get_activities_def get_activity_by_id_def http_def Let_def)

theorem fetch_failure_raises_exception_witness:
  "refresh_access_token_if_needed fixture_client (fixture_world 1000 (granting_server not_found)) =
     (Inr (), refreshed_client,
      (fixture_world 1000 (granting_server not_found))
        \<lparr>ticks := 1, exchanges := [(refresh_request fixture_client, token_grant)]\<rparr>)
   \<and> status_code not_found \<noteq> 200
   \<and> get_activities fixture_client (fixture_world 1000 (granting_server not_found))
         30 None None None 1 =
       (Inl (Exception ''Failed to fetch activities: gone''), refreshed_client,
        (fixture_world 1000 (granting_server not_found))
          \<lparr>ticks := 1,
           exchanges := [(refresh_request fixture_client, token_grant),
                         (activities_request refreshed_client 30 None None 1, not_found)]\<rparr>)
   \<and> get_activity_by_id fixture_client (fixture_world 1000 (granting_server not_found)) ''77'' =
       (Inl (Exception ''Failed to fetch activity: gone''), refreshed_client,
        (fixture_world 1000 (granting_server not_found))
          \<lparr>ticks := 1,
           exchanges := [(refresh_request fixture_client, token_grant),
                         (activity_request refreshed_client ''77'', not_found)]\<rparr>)"
proof -
  have st: "status_code not_found \<noteq> 200"
    by (simp add: not_found_def)
  have a: "get_activities fixture_client (fixture_world 1000 (granting_server not_found))
         30 None None None 1 =
       (Inl (Exception ''Failed to fetch activities: gone''), refreshed_client,
        (fixture_world 1000 (granting_server not_found))
          \<lparr>ticks := 1,
           exchanges := [(refresh_request fixture_client, token_grant),
                         (activities_request refreshed_client 30 None None 1, not_found)]\<rparr>)"
    using fixture_get_activities_failed [OF st] by (simp add: not_found_def)
  have b: "get_activity_by_id fixture_client (fixture_world 1000 (granting_server not_found)) ''77'' =
       (Inl (Exception ''Failed to fetch activity: gone''), refreshed_client,
        (fixture_world 1000 (granting_server not_found))
          \<lparr>ticks := 1,
           exchanges := [(refresh_request fixture_client, token_grant),
                         (activity_request refreshed_client ''77'', not_found)]\<rparr>)"
    using fixture_get_activity_by_id_failed [OF st] by (simp add: not_found_def)
  from fetch_failure_raises_exception [OF fixture_refresh_granted refl refl]
    fixture_refresh_granted [of not_found] st a b
  show ?thesis by blast
qed

text \<open>
  C4, as the claim has it, fails twice. \<^verbatim>\<open>get_athlete\<close> does not look at the status: on
  an answer with status 404 it returns the decoded body of that answer. And the error of
  \<^verbatim>\<open>get_activities\<close> does not carry the status: answers with status 404 and 500 and the
  same body raise the same exception.
\<close>

theorem fetch_error_claim_fails:
  "status_code not_found = 404
   \<and> get_athlete fixture_client (fixture_world 1000 (granting_server not_found)) =
       (Inr (JObj [(''message'', JStr ''Record Not Found'')]), refreshed_client,
        (fixture_world 1000 (granting_server not_found))
          \<lparr>ticks := 1,
           exchanges := [(refresh_request fixture_client, token_grant),
                         (athlete_request refreshed_client, not_found)]\<rparr>)
   \<and> status_code server_error = 500
   \<and> fst (get_activities fixture_client (fixture_world 1000 (granting_server not_found))
            30 None None None 1) = Inl (Exception ''Failed to fetch activities: gone'')
   \<and> fst (get_activities fixture_client (fixture_world 1000 (granting_server server_error))
            30 None None None 1) = Inl (Exception ''Failed to fetch activities: gone'')"
  by (simp add: fixture_get_athlete fixture_get_activities_failed response_json_def
        not_found_def server_error_def)

section \<open>The tools without a client\<close>

lemma parse_start: "strptime_ymd ''2024-01-01'' = Inr (2024, 1, 1)"
  by (simp add: is_digit_def is_digit19_def digit_val_def days_in_month_def is_leap_def)

lemma parse_end: "strptime_ymd ''2024-01-31'' = Inr (2024, 1, 31)"
  by (simp add: is_digit_def is_digit19_def digit_val_def days_in_month_def is_leap_def)

lemma parse_november:
  "strptime_ymd ''2024-11-01'' = Inr (2024, 11, 1)"
  "strptime_ymd ''2024-11-03'' = Inr (2024, 11, 3)"
  by (simp_all add: is_digit_def is_digit19_def digit_val_def days_in_month_def is_leap_def)

lemma parse_bad_month: "strptime_ymd ''2024-13-01'' = Inl StrptimeError"
  by (simp add: is_digit_def is_digit19_def digit_val_def)

lemma parse_first_day: "strptime_ymd ''0001-01-01'' = Inr (1, 1, 1)"
  by (simp add: is_digit_def is_digit19_def digit_val_def days_in_month_def is_leap_def)

text \<open>
  C8, as the code has it. Each of the six tools that use the client, called while the
  global is \<^verbatim>\<open>None\<close>, raises \<^verbatim>\<open>ValueError("Strava client not initialized. Check server logs.")\<close>
  and leaves the world as it was: no request has been sent and the clock has not been
  read. The class of the error is the built-in \<^verbatim>\<open>ValueError\<close>, the class of the error of a
  date that cannot be parsed; it is not the class of the errors raised for a failed
  refresh or a failed data request.
\<close>

theorem tools_need_client:
  "invoke call None w = (Inl not_initialized, None, w)
   \<and> not_initialized = ValueError ''Strava client not initialized. Check server logs.''
   \<and> class_of not_initialized = Class_ValueError
   \<and> class_of not_initialized = class_of StrptimeError
   \<and> class_of not_initialized \<noteq> class_of (Exception message)"
  by (cases call)
     (simp_all add: get_recent_activities_def tool_get_activities_by_date_range_def
        get_all_activities_in_year_def get_available_activity_types_def
        get_athlete_profile_def get_activity_details_def not_initialized_def)

theorem tools_need_client_witness:
  "invoke Athlete_profile None (fixture_world 1000 denying_server) =
     (Inl (ValueError ''Strava client not initialized. Check server logs.''), None,
      fixture_world 1000 denying_server)
   \<and> invoke (All_activities_in_year 2024 (Some ''Run'')) None (fixture_world 1000 denying_server) =
     (Inl (ValueError ''Strava client not initialized. Check server logs.''), None,
      fixture_world 1000 denying_server)"
  using tools_need_client [of Athlete_profile "fixture_world 1000 denying_server"]
    tools_need_client [of "All_activities_in_year 2024 (Some ''Run'')"
                          "fixture_world 1000 denying_server"]
  by simp

text \<open>
  C8, as the claim has it, fails: the error is not of a type of its own. The date-range
  tool, given a month 13, raises an error of the same class whether the client is missing
  or present; the two are told apart by their messages only.
\<close>

theorem not_initialized_shares_its_class:
  "invoke (Activities_by_date_range ''2024-13-01'' ''2024-01-31'' None) None
       (fixture_world 1000 denying_server) =
     (Inl (ValueError ''Strava client not initialized. Check server logs.''), None,
      fixture_world 1000 denying_server)
   \<and> invoke (Activities_by_date_range ''2024-13-01'' ''2024-01-31'' None) (Some fixture_client)
       (fixture_world 1000 denying_server) =
     (Inl StrptimeError, Some fixture_client, fixture_world 1000 denying_server)
   \<and> class_of (ValueError ''Strava client not initialized. Check server logs.'') =
       class_of StrptimeError"
  by (simp add: tool_get_activities_by_date_range_def get_activities_by_date_range_def
        date_window_def parse_bad_month not_initialized_def del: strptime_ymd.simps)

section \<open>The window of a date range\<close>

lemma ord_epoch: "ymd2ord (1970, 1, 1) = 719163"
  by (simp add: ymd2ord_def days_before_year_def days_before_month_def)

lemma ord_first: "ymd2ord (1, 1, 1) = 1"
  by (simp add: ymd2ord_def days_before_year_def days_before_month_def)

lemma ord_last: "ymd2ord (9999, 12, 31) = 3652059"
  by (simp add: ymd2ord_def days_before_year_def days_before_month_def days_in_month_def
        is_leap_def upto.simps)

lemma ord_start: "ymd2ord (2024, 1, 1) = 738886"
  by (simp add: ymd2ord_def days_before_year_def days_before_month_def)

lemma ord_end: "ymd2ord (2024, 1, 31) = 738916"
  by (simp add: ymd2ord_def days_before_year_def days_before_month_def)

lemma ord_november:
  "ymd2ord (2024, 11, 1) = 739191"
  "ymd2ord (2024, 11, 3) = 739193"
  "ymd2ord (2024, 11, 4) = 739194"
  by (simp_all add: ymd2ord_def days_before_year_def days_before_month_def days_in_month_def
        is_leap_def upto.simps)

lemma localtime_seconds_eval:
  "localtime_seconds w u =
     (if 86400 \<le> u + utc_offset w (u - 62135683200)
         \<and> u + utc_offset w (u - 62135683200) < 315537984000
      then Inr (u + utc_offset w (u - 62135683200))
      else Inl YearError)"
  by (simp add: localtime_seconds_def epoch_seconds_def ord_epoch ord_first ord_last Let_def)

lemma timestamp_utc:
  assumes "\<forall>u. utc_offset w u = 0" and "2 \<le> ymd2ord (y, m, d)"
      and "ymd2ord (y, m, d) \<le> 3652059" and "1 \<le> y" and "y \<le> 9999"
  shows "timestamp w (y, m, d) = Inr ((ymd2ord (y, m, d) - 719163) * 86400)"
  using assms
  by (simp add: timestamp_def local_to_seconds_def localtime_seconds_eval Let_def
        epoch_seconds_def ord_epoch)

lemma timestamp_first_day:
  "timestamp (fixture_world t server) (1, 1, 1) = Inl YearError"
  by (simp add: timestamp_def local_to_seconds_def localtime_seconds_eval Let_def ord_first
        fixture_world_def)

lemma fixture_window:
  "date_window (fixture_world t server) ''2024-01-01'' ''2024-01-31'' =
     Inr (1704067200, 1706745600)"
proof -
  have utc: "\<forall>u. utc_offset (fixture_world t server) u = 0"
    by (simp add: fixture_world_def)
  have a: "timestamp (fixture_world t server) (2024, 1, 1) = Inr 1704067200"
    using timestamp_utc [OF utc, of 2024 1 1] by (simp add: ord_start)
  have b: "timestamp (fixture_world t server) (2024, 1, 31) = Inr 1706659200"
    using timestamp_utc [OF utc, of 2024 1 31] by (simp add: ord_end)
  show ?thesis
    by (simp only: date_window_def parse_start parse_end a b sum.case) simp
qed

lemma new_york_timestamps:
  "timestamp new_york_world (2024, 11, 1) = Inr 1730433600"
  "timestamp new_york_world (2024, 11, 3) = Inr 1730606400"
  "timestamp new_york_world (2024, 11, 4) = Inr 1730696400"
  by (simp_all add: timestamp_def local_to_seconds_def second_guess_def localtime_seconds_eval
        Let_def ord_november epoch_seconds_def ord_epoch new_york_world_def new_york_offset_def
        fixture_world_def)

lemma new_york_window:
  "date_window new_york_world ''2024-11-01'' ''2024-11-03'' = Inr (1730433600, 1730692800)"
  by (simp only: date_window_def parse_november new_york_timestamps sum.case) simp

lemma first_day_window:
  "date_window (fixture_world t server) ''0001-01-01'' ''2024-01-31'' = Inl YearError"
  by (simp only: date_window_def parse_first_day timestamp_first_day sum.case)

lemma new_york_get_activities:
  "get_activities refreshed_client new_york_world limit before after None page =
     (Inr (JList []), refreshed_client,
      new_york_world
        \<lparr>ticks := 1,
         exchanges := [(activities_request refreshed_client limit before after page,
                        page_answer [])]\<rparr>)"
proof -
  have m: "py_sub (token_expires_at refreshed_client) 300 = Inr 4700"
    by (simp add: refreshed_client_def)
  have fresh: "clock new_york_world (ticks new_york_world) < real_of_int 4700"
    by (simp add: new_york_world_def fixture_world_def)
  show ?thesis
    unfolding get_activities_def refresh_not_needed [OF m fresh]
    by (simp add: http_def Let_def new_york_world_def fixture_world_def activities_request_def
          activities_params_def page_answer_def response_json_def)
qed

text \<open>
  C5, at an input where the code does not do what the claim says. The process runs on
  New York time and is asked for the dates 2024-11-01 to 2024-11-03; the clock is set
  back an hour in the night of 2024-11-03, so that day has 25 hours. The request bears
  \<open>after\<close> = 1730433600, local midnight of the start date, and \<open>before\<close> = 1730692800,
  local midnight of the end date plus 86400 seconds. Local midnight after the end date is
  1730696400: \<open>before\<close> falls an hour short of it, at 23:00 of the end date, and the last
  hour of the end date is outside the window. (In the UTC world of \<open>fixture_window\<close> the
  dates 2024-01-01 and 2024-01-31 give 1704067200 and 1706745600, the epochs of
  2024-01-01T00:00:00 and 2024-02-01T00:00:00, as the claim has them.)
\<close>

theorem end_date_cut_short_by_clock_change:
  "get_activities_by_date_range refreshed_client new_york_world
       ''2024-11-01'' ''2024-11-03'' 100 None =
     (Inr (JList []), refreshed_client,
      new_york_world
        \<lparr>ticks := 1,
         exchanges :=
           [(Get ''https://www.strava.com/api/v3/athlete/activities'' (JStr ''A1'')
               [(''per_page'', JInt 100), (''page'', JInt 1),
                (''before'', JInt 1730692800), (''after'', JInt 1730433600)],
             page_answer [])]\<rparr>)
   \<and> timestamp new_york_world (2024, 11, 3) = Inr 1730606400
   \<and> timestamp new_york_world (2024, 11, 4) = Inr 1730696400
   \<and> (1730692800 :: int) + 3600 = 1730696400"
proof -
  have req: "activities_request refreshed_client 100 (Some 1730692800) (Some 1730433600) 1 =
      Get ''https://www.strava.com/api/v3/athlete/activities'' (JStr ''A1'')
               [(''per_page'', JInt 100), (''page'', JInt 1),
                (''before'', JInt 1730692800), (''after'', JInt 1730433600)]"
    by (simp add: activities_request_def activities_params_def refreshed_client_def
          fixture_client_def StravaClient_def)
  have "get_activities_by_date_range refreshed_client new_york_world
       ''2024-11-01'' ''2024-11-03'' 100 None =
     get_activities refreshed_client new_york_world 100 (Some 1730692800) (Some 1730433600) None 1"
    by (simp add: get_activities_by_date_range_def new_york_window)
  with new_york_get_activities [of 100 "Some 1730692800" "Some 1730433600" 1] req
    new_york_timestamps
  show ?thesis by simp
qed

section \<open>Fetching every page\<close>

lemma page_fetches_append [simp]:
  "page_fetches (xs @ ys) = page_fetches xs @ page_fetches ys"
  by (simp add: page_fetches_def)

lemma page_fetches_refresh [simp]: "page_fetches [(refresh_request c, resp)] = []"
  by (simp add: page_fetches_def refresh_request_def)

lemma page_fetches_activities [simp]:
  "page_fetches [(activities_request c limit before after p, resp)] =
     [activities_params limit before after p]"
  by (simp add: page_fetches_def activities_request_def)

lemma token_step_granted:
  assumes "token_expires_at c = JInt e" and "grants_tokens (upstream w)"
  shows "\<exists>c1 w1 e1. refresh_access_token_if_needed c w = (Inr (), c1, w1)
           \<and> token_expires_at c1 = JInt e1 \<and> upstream w1 = upstream w
           \<and> page_fetches (exchanges w1) = page_fetches (exchanges w)"
proof (cases "of_int (e - 300) \<le> clock w (ticks w)")
  case False
  with assms(1) refresh_not_needed [of c "e - 300" w] show ?thesis
    by auto
next
  case True
  let ?resp = "upstream w (exchanges w) (refresh_request c)"
  from assms(2) obtain data a r x where
    "status_code ?resp = 200" "json_body ?resp = Some data"
    "subscript data ''access_token'' = Inr a" "subscript data ''refresh_token'' = Inr r"
    "subscript data ''expires_at'' = Inr (JInt x)"
    unfolding grants_tokens_def by blast
  with refresh_ok [of c "e - 300" w ?resp data a r "JInt x"] True assms(1)
  show ?thesis by auto
qed

lemma get_activities_served:
  assumes "token_expires_at c = JInt e" and "grants_tokens (upstream w)"
      and "serves_page (upstream w) before after p content"
  shows "\<exists>c1 w1 e1. get_activities c w 100 (Some before) (Some after) None p = (Inr content, c1, w1)
           \<and> token_expires_at c1 = JInt e1 \<and> upstream w1 = upstream w
           \<and> page_fetches (exchanges w1) =
               page_fetches (exchanges w) @ [activities_params 100 (Some before) (Some after) p]"
proof -
  from token_step_granted [OF assms(1,2)] obtain c1 w1 e1 where
    rf: "refresh_access_token_if_needed c w = (Inr (), c1, w1)"
    and inv: "token_expires_at c1 = JInt e1" "upstream w1 = upstream w"
             "page_fetches (exchanges w1) = page_fetches (exchanges w)"
    by blast
  let ?req = "activities_request c1 100 (Some before) (Some after) p"
  from assms(3) inv(2) have "status_code (upstream w1 (exchanges w1) ?req) = 200"
    and "json_body (upstream w1 (exchanges w1) ?req) = Some content"
    unfolding serves_page_def by simp_all
  with rf inv show ?thesis
    by (simp add: get_activities_def http_def Let_def response_json_def)
qed

lemma loop_step_full:
  assumes "page \<le> max_pages"
      and "get_activities c w 100 (Some before) (Some after) None page = (Inr (JList xs), c1, w1)"
      and "\<not> truthy_str activity_type" and "100 \<le> length xs"
  shows "get_all_loop c w before after activity_type max_pages page all_activities =
         get_all_loop c1 w1 before after activity_type max_pages (page + 1) (all_activities @ xs)"
  using assms by (subst get_all_loop.simps) auto

lemma loop_step_last:
  assumes "page \<le> max_pages"
      and "get_activities c w 100 (Some before) (Some after) None page = (Inr (JList xs), c1, w1)"
      and "\<not> truthy_str activity_type" and "xs \<noteq> []" and "length xs < 100"
  shows "get_all_loop c w before after activity_type max_pages page all_activities =
         (Inr (all_activities @ xs), c1, w1)"
  using assms by (subst get_all_loop.simps) auto

lemma fixture_grants_tokens:
  "grants_tokens (upstream (fixture_world t (paged_server pages)))"
  by (simp add: grants_tokens_def fixture_world_def refresh_request_def token_grant_def)

lemma fixture_serves_page:
  "serves_page (upstream (fixture_world t (paged_server pages))) before after p (JList (pages p))"
  by (simp add: serves_page_def fixture_world_def activities_request_def activities_params_def
        page_answer_def)

text \<open>
  C6. Let the expiry be an integer, let every refresh that falls due be granted, and let
  the provider serve three pages of 100 activities and then a page of 40. Without a type
  filter and with a cap of at least 4 pages, \<^verbatim>\<open>get_all_activities_by_date_range\<close> returns the
  four pages in order, 340 activities, and has sent the requests for page 1, 2, 3 and 4
  and no other \<^verbatim>\<open>GET\<close>.
\<close>

theorem four_pages_give_340:
  assumes tok: "token_expires_at c = JInt e"
      and grants: "grants_tokens (upstream w)"
      and window: "date_window w start_date end_date = Inr (after, before)"
      and p1: "serves_page (upstream w) before after 1 (JList page1)" "length page1 = 100"
      and p2: "serves_page (upstream w) before after 2 (JList page2)" "length page2 = 100"
      and p3: "serves_page (upstream w) before after 3 (JList page3)" "length page3 = 100"
      and p4: "serves_page (upstream w) before after 4 (JList page4)" "length page4 = 40"
      and nofilter: "\<not> truthy_str activity_type"
      and cap: "4 \<le> max_pages"
  shows "\<exists>c' w'. get_all_activities_by_date_range c w start_date end_date activity_type max_pages =
           (Inr (page1 @ page2 @ page3 @ page4), c', w')
         \<and> length (page1 @ page2 @ page3 @ page4) = 340
         \<and> page_fetches (exchanges w') =
             page_fetches (exchanges w) @
             map (activities_params 100 (Some before) (Some after)) [1, 2, 3, 4]"
proof -
  from get_activities_served [OF tok grants p1(1)] obtain c1 w1 e1 where
    s1: "get_activities c w 100 (Some before) (Some after) None 1 = (Inr (JList page1), c1, w1)"
    and i1: "token_expires_at c1 = JInt e1" "upstream w1 = upstream w"
    and f1: "page_fetches (exchanges w1) =
               page_fetches (exchanges w) @ [activities_params 100 (Some before) (Some after) 1]"
    by blast
  from get_activities_served [of c1 e1 w1 before after 2 "JList page2"] i1 grants p2(1)
  obtain c2 w2 e2 where
    s2: "get_activities c1 w1 100 (Some before) (Some after) None 2 = (Inr (JList page2), c2, w2)"
    and i2: "token_expires_at c2 = JInt e2" "upstream w2 = upstream w"
    and f2: "page_fetches (exchanges w2) =
               page_fetches (exchanges w1) @ [activities_params 100 (Some before) (Some after) 2]"
    by auto
  from get_activities_served [of c2 e2 w2 before after 3 "JList page3"] i2 grants p3(1)
  obtain c3 w3 e3 where
    s3: "get_activities c2 w2 100 (Some before) (Some after) None 3 = (Inr (JList page3), c3, w3)"
    and i3: "token_expires_at c3 = JInt e3" "upstream w3 = upstream w"
    and f3: "page_fetches (exchanges w3) =
               page_fetches (exchanges w2) @ [activities_params 100 (Some before) (Some after) 3]"
    by auto
  from get_activities_served [of c3 e3 w3 before after 4 "JList page4"] i3 grants p4(1)
  obtain c4 w4 e4 where
    s4: "get_activities c3 w3 100 (Some before) (Some after) None 4 = (Inr (JList page4), c4, w4)"
    and f4: "page_fetches (exchanges w4) =
               page_fetches (exchanges w3) @ [activities_params 100 (Some before) (Some after) 4]"
    by auto
  have "get_all_loop c w before after activity_type max_pages 1 [] =
        get_all_loop c1 w1 before after activity_type max_pages 2 page1"
    using loop_step_full [OF _ s1 nofilter, of max_pages "[]"] cap p1(2) by simp
  also have "\<dots> = get_all_loop c2 w2 before after activity_type max_pages 3 (page1 @ page2)"
    using loop_step_full [OF _ s2 nofilter, of max_pages page1] cap p2(2) by simp
  also have "\<dots> = get_all_loop c3 w3 before after activity_type max_pages 4
                     (page1 @ page2 @ page3)"
    using loop_step_full [OF _ s3 nofilter, of max_pages "page1 @ page2"] cap p3(2) by simp
  also have "\<dots> = (Inr (page1 @ page2 @ page3 @ page4), c4, w4)"
  proof -
    from p4(2) have "page4 \<noteq> []" by auto
    with loop_step_last [OF _ s4 nofilter, of max_pages "page1 @ page2 @ page3"] cap p4(2)
    show ?thesis by simp
  qed
  finally have "get_all_activities_by_date_range c w start_date end_date activity_type max_pages =
      (Inr (page1 @ page2 @ page3 @ page4), c4, w4)"
    by (simp add: get_all_activities_by_date_range_def window)
  moreover have "length (page1 @ page2 @ page3 @ page4) = 340"
    using p1(2) p2(2) p3(2) p4(2) by simp
  moreover have "page_fetches (exchanges w4) =
      page_fetches (exchanges w) @ map (activities_params 100 (Some before) (Some after)) [1, 2, 3, 4]"
    using f1 f2 f3 f4 by simp
  ultimately show ?thesis by blast
qed

theorem four_pages_give_340_witness:
  "token_expires_at fixture_client = JInt 0
   \<and> date_window (fixture_world 1000 (paged_server four_pages)) ''2024-01-01'' ''2024-01-31'' =
       Inr (1704067200, 1706745600)
   \<and> length (four_pages 1) = 100 \<and> length (four_pages 2) = 100
   \<and> length (four_pages 3) = 100 \<and> length (four_pages 4) = 40
   \<and> (\<exists>c' w'. get_all_activities_by_date_range fixture_client
                  (fixture_world 1000 (paged_server four_pages))
                  ''2024-01-01'' ''2024-01-31'' None 10 =
                (Inr (four_pages 1 @ four_pages 2 @ four_pages 3 @ four_pages 4), c', w')
              \<and> page_fetches (exchanges w') =
                  map (activities_params 100 (Some 1706745600) (Some 1704067200)) [1, 2, 3, 4])"
proof -
  let ?w = "fixture_world 1000 (paged_server four_pages)"
  have tok: "token_expires_at fixture_client = JInt 0"
    by (simp add: fixture_client_def StravaClient_def)
  have l1: "length (four_pages 1) = 100" and l2: "length (four_pages 2) = 100"
    and l3: "length (four_pages 3) = 100" and l4: "length (four_pages 4) = 40"
    by (simp_all add: four_pages_def)
  have none: "\<not> truthy_str None" and cap: "(4::int) \<le> 10"
    by simp_all
  have start: "page_fetches (exchanges ?w) = []"
    by (simp add: fixture_world_def page_fetches_def)
  from four_pages_give_340 [of fixture_client 0 ?w, OF tok fixture_grants_tokens fixture_window
      fixture_serves_page l1 fixture_serves_page l2 fixture_serves_page l3
      fixture_serves_page l4 none cap]
  show ?thesis
    using tok l1 l2 l3 l4 start by (simp add: fixture_window)
qed

lemma loop_cases:
  assumes "get_all_loop c w b a t mp page all_activities = (r, c', w')"
  shows "(\<not> page \<le> mp \<and> c' = c \<and> w' = w)
       \<or> (page \<le> mp \<and>
           (\<exists>r1 c1 w1. get_activities c w 100 (Some b) (Some a) None page = (r1, c1, w1)
              \<and> ((c' = c1 \<and> w' = w1)
                  \<or> (\<exists>xs. get_all_loop c1 w1 b a t mp (page + 1) (all_activities @ xs)
                             = (r, c', w')))))"
  using assms
  by (subst (asm) get_all_loop.simps) (auto split: if_splits prod.splits sum.splits)

text \<open>
  Whatever the provider answers, a call of \<^verbatim>\<open>get_activities\<close> sends at most one \<^verbatim>\<open>GET\<close>, and
  the loop, entered at \<open>page\<close>, sends at most \<open>max_pages + 1 - page\<close> of them: the method
  never fetches more than \<open>max_pages\<close> pages.
\<close>

lemma refresh_page_fetches:
  "refresh_access_token_if_needed c w = (r, c', w') \<Longrightarrow>
   page_fetches (exchanges w') = page_fetches (exchanges w)"
  by (auto simp: refresh_access_token_if_needed_def time_time_def http_def Let_def
        page_fetches_def refresh_request_def
      split: sum.splits if_splits prod.splits)

lemma get_activities_one_fetch:
  assumes "get_activities c w limit before after activity_type page = (r, c', w')"
  shows "length (page_fetches (exchanges w')) \<le> Suc (length (page_fetches (exchanges w)))"
proof -
  obtain r0 c1 w1 where rf: "refresh_access_token_if_needed c w = (r0, c1, w1)"
    by (metis prod_cases3)
  note same = refresh_page_fetches [OF rf]
  show ?thesis
  proof (cases r0)
    case (Inl e)
    with rf assms same show ?thesis
      by (simp add: get_activities_def)
  next
    case (Inr u)
    with rf assms same show ?thesis
      by (auto simp: get_activities_def http_def Let_def split: sum.splits if_splits)
  qed
qed

lemma loop_fetch_cap:
  assumes "get_all_loop c w b a t mp page all_activities = (r, c', w')"
  shows "length (page_fetches (exchanges w')) \<le>
           length (page_fetches (exchanges w)) + nat (mp + 1 - page)"
  using assms
proof (induction "nat (mp + 1 - page)" arbitrary: c w page all_activities rule: less_induct)
  case less
  from loop_cases [OF less.prems] show ?case
  proof (elim disjE conjE exE)
    assume "c' = c" "w' = w"
    then show ?thesis by simp
  next
    fix r1 c1 w1
    assume "page \<le> mp"
      and "get_activities c w 100 (Some b) (Some a) None page = (r1, c1, w1)"
      and "c' = c1" "w' = w1"
    with get_activities_one_fetch [of c w 100 "Some b" "Some a" None page r1 c1 w1]
    show ?thesis by simp
  next
    fix r1 c1 w1 xs
    assume le: "page \<le> mp"
      and ga: "get_activities c w 100 (Some b) (Some a) None page = (r1, c1, w1)"
      and rec: "get_all_loop c1 w1 b a t mp (page + 1) (all_activities @ xs) = (r, c', w')"
    from le have dec: "nat (mp + 1 - (page + 1)) < nat (mp + 1 - page)" by simp
    from less.hyps [OF dec rec] get_activities_one_fetch [OF ga] le
    show ?thesis by simp
  qed
qed

lemma get_all_fetch_cap:
  assumes "get_all_activities_by_date_range c w start_date end_date activity_type max_pages
             = (r, c', w')"
  shows "length (page_fetches (exchanges w')) \<le>
           length (page_fetches (exchanges w)) + nat max_pages"
  using assms loop_fetch_cap [of c w _ _ activity_type max_pages 1 "[]" r c' w']
  by (auto simp: get_all_activities_by_date_range_def split: sum.splits prod.splits)

lemma filter_by_type_objects:
  "\<forall>a \<in> set xs. \<exists>kvs. a = JObj kvs \<Longrightarrow>
   filter_by_type xs t = Inr (filter (\<lambda>a. dict_get a ''type'' = Inr (JStr t)) xs)"
  by (induction xs) (auto split: option.splits)

lemma fixture_fresh_get_activities:
  "get_activities refreshed_client (fixture_world 1000 (paged_server pages))
       limit before after None page =
     (Inr (JList (pages page)), refreshed_client,
      (fixture_world 1000 (paged_server pages))
        \<lparr>ticks := 1,
         exchanges := [(activities_request refreshed_client limit before after page,
                        page_answer (pages page))]\<rparr>)"
proof -
  have m: "py_sub (token_expires_at refreshed_client) 300 = Inr 4700"
    by (simp add: refreshed_client_def)
  have fresh: "clock (fixture_world 1000 (paged_server pages))
                 (ticks (fixture_world 1000 (paged_server pages))) < real_of_int 4700"
    by (simp add: fixture_world_def)
  show ?thesis
    unfolding get_activities_def refresh_not_needed [OF m fresh]
    by (simp add: http_def Let_def fixture_world_def activities_request_def
          activities_params_def page_answer_def response_json_def)
qed

text \<open>
  C2, at an input where the code does not do what the claim says. The provider has two
  pages for the window: page 1 holds 100 activities, 99 of type \<^verbatim>\<open>Run\<close> and one of type
  \<^verbatim>\<open>Ride\<close>, and page 2 holds one more \<^verbatim>\<open>Run\<close>. Asked for the type \<^verbatim>\<open>Run\<close> with a cap of 10
  pages, the method fetches page 1 and stops: the length it compares with 100 is the
  length of the page after the filter, 99. It returns 99 activities and never asks for
  page 2, although page 1 was neither empty nor shorter than 100.
\<close>

theorem filtered_page_ends_pagination:
  "length (mixed_pages 1) = 100
   \<and> mixed_pages 2 = [activity ''Run'']
   \<and> get_all_activities_by_date_range refreshed_client
         (fixture_world 1000 (paged_server mixed_pages))
         ''2024-01-01'' ''2024-01-31'' (Some ''Run'') 10 =
       (Inr (replicate 99 (activity ''Run'')), refreshed_client,
        (fixture_world 1000 (paged_server mixed_pages))
          \<lparr>ticks := 1,
           exchanges := [(activities_request refreshed_client 100 (Some 1706745600)
                            (Some 1704067200) 1,
                          page_answer (mixed_pages 1))]\<rparr>)"
proof -
  have objs: "\<forall>a \<in> set (mixed_pages 1). \<exists>kvs. a = JObj kvs"
    by (simp add: mixed_pages_def activity_def)
  have kept: "filter (\<lambda>a. dict_get a ''type'' = Inr (JStr ''Run'')) (mixed_pages 1) =
                replicate 99 (activity ''Run'')"
    by (simp add: mixed_pages_def activity_def)
  have compr: "comprehension_by_type (JList (mixed_pages 1)) ''Run'' =
                 Inr (JList (replicate 99 (activity ''Run'')))"
    by (simp add: comprehension_by_type_def filter_by_type_objects [OF objs] kept)
  have nonempty: "mixed_pages 1 \<noteq> []"
    by (simp add: mixed_pages_def)
  have loop: "get_all_loop refreshed_client (fixture_world 1000 (paged_server mixed_pages))
                1706745600 1704067200 (Some ''Run'') 10 1 [] =
       (Inr (replicate 99 (activity ''Run'')), refreshed_client,
        (fixture_world 1000 (paged_server mixed_pages))
          \<lparr>ticks := 1,
           exchanges := [(activities_request refreshed_client 100 (Some 1706745600)
                            (Some 1704067200) 1,
                          page_answer (mixed_pages 1))]\<rparr>)"
    by (subst get_all_loop.simps)
       (simp add: fixture_fresh_get_activities nonempty compr)
  have "length (mixed_pages 1) = 100" and "mixed_pages 2 = [activity ''Run'']"
    by (simp_all add: mixed_pages_def)
  with loop show ?thesis
    by (simp add: get_all_activities_by_date_range_def fixture_window)
qed

section \<open>The types of the recent activities\<close>

lemma set_add_distinct:
  "distinct (map py_key acc) \<Longrightarrow> distinct (map py_key (set_add acc v))"
  by (auto simp: set_add_def)

lemma set_add_keys: "py_key ` set (set_add acc v) = insert (py_key v) (py_key ` set acc)"
  by (auto simp: set_add_def)

lemma set_add_subset: "set (set_add acc v) \<subseteq> insert v (set acc)"
  by (auto simp: set_add_def)

lemma set_add_length: "length (set_add acc v) \<le> Suc (length acc)"
  by (simp add: set_add_def)

lemma collect_types_distinct:
  "collect_types xs acc = Inr ts \<Longrightarrow> distinct (map py_key acc) \<Longrightarrow> distinct (map py_key ts)"
proof (induction xs arbitrary: acc)
  case Nil
  then show ?case by simp
next
  case (Cons a xs)
  then show ?case
    by (auto split: sum.splits if_splits dest: set_add_distinct)
qed

lemma collect_types_sound:
  "collect_types xs acc = Inr ts \<Longrightarrow>
   set ts \<subseteq> set acc \<union> {v. truthy v \<and> (\<exists>a \<in> set xs. dict_get a ''type'' = Inr v)}"
proof (induction xs arbitrary: acc)
  case Nil
  then show ?case by simp
next
  case (Cons a xs)
  show ?case
  proof (cases "dict_get a ''type''")
    case (Inl e)
    with Cons.prems show ?thesis by simp
  next
    case (Inr v)
    show ?thesis
    proof (cases "truthy v")
      case False
      with Inr Cons.prems have "collect_types xs acc = Inr ts" by simp
      from Cons.IH [OF this] show ?thesis by auto
    next
      case True
      with Inr Cons.prems have "collect_types xs (set_add acc v) = Inr ts"
        by (simp split: if_splits)
      from Cons.IH [OF this] set_add_subset [of acc v] True Inr show ?thesis
        by auto
    qed
  qed
qed

lemma collect_types_complete:
  "collect_types xs acc = Inr ts \<Longrightarrow>
   py_key ` (set acc \<union> {v. truthy v \<and> (\<exists>a \<in> set xs. dict_get a ''type'' = Inr v)})
     \<subseteq> py_key ` set ts"
proof (induction xs arbitrary: acc)
  case Nil
  then show ?case by simp
next
  case (Cons a xs)
  let ?S = "\<lambda>ys. {v. truthy v \<and> (\<exists>a \<in> set ys. dict_get a ''type'' = Inr v)}"
  show ?case
  proof (cases "dict_get a ''type''")
    case (Inl e)
    with Cons.prems show ?thesis by simp
  next
    case (Inr v)
    show ?thesis
    proof (cases "truthy v")
      case False
      with Inr Cons.prems have "collect_types xs acc = Inr ts" by simp
      from Cons.IH [OF this] have ih: "py_key ` (set acc \<union> ?S xs) \<subseteq> py_key ` set ts" .
      from False Inr have "?S (a # xs) = ?S xs" by auto
      with ih show ?thesis by simp
    next
      case True
      with Inr Cons.prems have "collect_types xs (set_add acc v) = Inr ts"
        by (simp split: if_splits)
      from Cons.IH [OF this]
      have ih: "py_key ` (set (set_add acc v) \<union> ?S xs) \<subseteq> py_key ` set ts" .
      from True Inr have "?S (a # xs) = insert v (?S xs)" by auto
      then have "py_key ` (set acc \<union> ?S (a # xs)) =
                 insert (py_key v) (py_key ` set acc) \<union> py_key ` ?S xs"
        by (simp add: image_Un)
      also have "\<dots> = py_key ` (set (set_add acc v) \<union> ?S xs)"
        by (simp add: image_Un set_add_keys)
      finally show ?thesis using ih by simp
    qed
  qed
qed

lemma collect_types_length:
  "collect_types xs acc = Inr ts \<Longrightarrow> length ts \<le> length acc + length xs"
proof (induction xs arbitrary: acc)
  case Nil
  then show ?case by simp
next
  case (Cons a xs)
  show ?case
  proof (cases "dict_get a ''type''")
    case (Inl e)
    with Cons.prems show ?thesis by simp
  next
    case (Inr v)
    show ?thesis
    proof (cases "truthy v")
      case False
      with Inr Cons.prems have "collect_types xs acc = Inr ts" by simp
      from Cons.IH [OF this] show ?thesis by simp
    next
      case True
      with Inr Cons.prems have "collect_types xs (set_add acc v) = Inr ts"
        by (simp split: if_splits)
      from Cons.IH [OF this] set_add_length [of acc v] show ?thesis by simp
    qed
  qed
qed

lemma collect_types_total:
  "\<forall>a \<in> set xs. is_activity a \<Longrightarrow> \<exists>ts. collect_types xs acc = Inr ts"
proof (induction xs arbitrary: acc)
  case Nil
  then show ?case by simp
next
  case (Cons a xs)
  then show ?case
    by (auto simp: is_activity_def split: json.splits option.splits)
qed

lemma fixture_refresh_granted_paged:
  "refresh_access_token_if_needed fixture_client (fixture_world 1000 (paged_server pages)) =
     (Inr (), refreshed_client,
      (fixture_world 1000 (paged_server pages))
        \<lparr>ticks := 1, exchanges := [(refresh_request fixture_client, token_grant)]\<rparr>)"
  using refresh_ok [OF fixture_margin, of "fixture_world 1000 (paged_server pages)" token_grant
                      _ "JStr ''A1''" "JStr ''R1''" "JInt 5000"]
  by (simp add: fixture_world_def refresh_request_def token_grant_def refreshed_client_def)

lemma listing_keys_distinct:
  "distinct (map py_key (sort_key rank xs)) = distinct (map py_key xs)"
  by (simp add: distinct_map)

lemma get_activity_types_distinct:
  assumes "get_activity_types c w = (Inr types, c', w')"
  shows "distinct (map py_key types)"
proof -
  from assms obtain xs types0 where
    ct: "collect_types xs [] = Inr types0" and
    listed: "types = sort_key (set_rank w' types0) types0"
    by (auto simp: get_activity_types_def split: prod.splits sum.splits)
  from collect_types_distinct [OF ct] have "distinct (map py_key types0)" by simp
  with listed show ?thesis by (simp add: listing_keys_distinct)
qed

lemma fixture_granted_get_activities:
  "get_activities fixture_client (fixture_world 1000 (paged_server pages))
       limit before after None page =
     (Inr (JList (pages page)), refreshed_client,
      (fixture_world 1000 (paged_server pages))
        \<lparr>ticks := 1,
         exchanges := [(refresh_request fixture_client, token_grant),
                       (activities_request refreshed_client limit before after page,
                        page_answer (pages page))]\<rparr>)"
  unfolding get_activities_def fixture_refresh_granted_paged
  by (simp add: http_def Let_def fixture_world_def activities_request_def
        activities_params_def page_answer_def response_json_def)

lemma sample_types: "collect_types (sample_page p) [] = Inr [JStr ''Run'', JStr ''Ride'']"
  by (simp add: sample_page_def activity_def set_add_def)

text \<open>
  C9. After the token step has returned, let the provider answer the request for the first
  page of 200 activities (the only parameters are \<^verbatim>\<open>per_page = 200\<close> and \<^verbatim>\<open>page = 1\<close>) with
  status 200 and a list of activities. Then \<^verbatim>\<open>get_activity_types\<close> returns a list, having
  sent that one request, in which no value occurs twice, not even two values that Python
  holds equal; the values listed are exactly the non-empty types of the activities of that
  page, and there are no more of them than activities on the page.
\<close>

theorem activity_types_listed_once:
  assumes "refresh_access_token_if_needed c w = (Inr (), c1, w1)"
      and "resp = upstream w1 (exchanges w1) (activities_request c1 200 None None 1)"
      and "status_code resp = 200"
      and "json_body resp = Some (JList activities)"
      and "\<forall>a \<in> set activities. is_activity a"
  shows "\<exists>types. get_activity_types c w =
           (Inr types, c1,
            w1\<lparr>exchanges := exchanges w1 @ [(activities_request c1 200 None None 1, resp)]\<rparr>)
         \<and> distinct types
         \<and> distinct (map py_key types)
         \<and> set types \<subseteq> {v. truthy v \<and> (\<exists>a \<in> set activities. dict_get a ''type'' = Inr v)}
         \<and> py_key ` set types =
             py_key ` {v. truthy v \<and> (\<exists>a \<in> set activities. dict_get a ''type'' = Inr v)}
         \<and> length types \<le> length activities
         \<and> activities_params 200 None None 1 = [(''per_page'', JInt 200), (''page'', JInt 1)]"
proof -
  let ?w2 = "w1\<lparr>exchanges := exchanges w1 @ [(activities_request c1 200 None None 1, resp)]\<rparr>"
  let ?S = "{v. truthy v \<and> (\<exists>a \<in> set activities. dict_get a ''type'' = Inr v)}"
  have page: "get_activities c w 200 None None None 1 = (Inr (JList activities), c1, ?w2)"
    using assms(1-4) by (simp add: get_activities_def http_def Let_def response_json_def)
  from collect_types_total [OF assms(5)] obtain held where
    ct: "collect_types activities [] = Inr held" by blast
  define types where "types = sort_key (set_rank ?w2 held) held"
  have run: "get_activity_types c w = (Inr types, c1, ?w2)"
    by (simp add: get_activity_types_def page ct types_def)
  have same: "set types = set held" and len': "length types = length held"
    by (simp_all add: types_def)
  have d: "distinct (map py_key types)"
    using collect_types_distinct [OF ct] by (simp add: types_def listing_keys_distinct)
  then have d': "distinct types"
    by (simp add: distinct_map)
  have sound: "set types \<subseteq> ?S"
    using collect_types_sound [OF ct] same by simp
  have "py_key ` ?S \<subseteq> py_key ` set types"
    using collect_types_complete [OF ct] same by simp
  with sound have keys: "py_key ` set types = py_key ` ?S" by blast
  have len: "length types \<le> length activities"
    using collect_types_length [OF ct] len' by simp
  have params: "activities_params 200 None None 1 = [(''per_page'', JInt 200), (''page'', JInt 1)]"
    by (simp add: activities_params_def)
  from run d d' sound keys len params show ?thesis by blast
qed

theorem activity_types_listed_once_witness:
  "refresh_access_token_if_needed fixture_client (fixture_world 1000 (paged_server sample_page)) =
     (Inr (), refreshed_client,
      (fixture_world 1000 (paged_server sample_page))
        \<lparr>ticks := 1, exchanges := [(refresh_request fixture_client, token_grant)]\<rparr>)
   \<and> status_code (page_answer (sample_page 1)) = 200
   \<and> json_body (page_answer (sample_page 1)) = Some (JList (sample_page 1))
   \<and> list_all is_activity (sample_page 1)
   \<and> length (sample_page 1) = 4
   \<and> get_activity_types fixture_client (fixture_world 1000 (paged_server sample_page)) =
       (Inr [JStr ''Run'', JStr ''Ride''], refreshed_client,
        (fixture_world 1000 (paged_server sample_page))
          \<lparr>ticks := 1,
           exchanges := [(refresh_request fixture_client, token_grant),
                         (activities_request refreshed_client 200 None None 1,
                          page_answer (sample_page 1))]\<rparr>)"
proof -
  let ?w = "fixture_world 1000 (paged_server sample_page)"
  let ?w1 = "?w\<lparr>ticks := 1, exchanges := [(refresh_request fixture_client, token_grant)]\<rparr>"
  have rf: "refresh_access_token_if_needed fixture_client ?w = (Inr (), refreshed_client, ?w1)"
    using fixture_refresh_granted_paged [of sample_page] .
  have resp: "page_answer (sample_page 1) =
                upstream ?w1 (exchanges ?w1) (activities_request refreshed_client 200 None None 1)"
    by (simp add: fixture_world_def activities_request_def activities_params_def)
  have st: "status_code (page_answer (sample_page 1)) = 200"
    and js: "json_body (page_answer (sample_page 1)) = Some (JList (sample_page 1))"
    by (simp_all add: page_answer_def)
  have acts: "\<forall>a \<in> set (sample_page 1). is_activity a"
    by (simp add: sample_page_def activity_def is_activity_def)
  then have acts': "list_all is_activity (sample_page 1)"
    by (simp add: list_all_iff)
  have len: "length (sample_page 1) = 4"
    by (simp add: sample_page_def)
  from activity_types_listed_once [OF rf resp st js acts] obtain types where
    run: "get_activity_types fixture_client ?w =
            (Inr types, refreshed_client,
             ?w1\<lparr>exchanges := exchanges ?w1 @
                [(activities_request refreshed_client 200 None None 1,
                  page_answer (sample_page 1))]\<rparr>)"
    by blast
  have direct: "get_activity_types fixture_client ?w =
       (Inr [JStr ''Run'', JStr ''Ride''], refreshed_client,
        ?w\<lparr>ticks := 1,
           exchanges := [(refresh_request fixture_client, token_grant),
                         (activities_request refreshed_client 200 None None 1,
                          page_answer (sample_page 1))]\<rparr>)"
    unfolding get_activity_types_def fixture_granted_get_activities
    by (simp add: sample_types fixture_world_def)
  from rf st js acts' len direct show ?thesis by blast
qed

section \<open>The token a request bears\<close>

lemma bearers_granted_snoc:
  "bearers_granted earlier (xs @ [x]) =
     (bearers_granted earlier xs \<and>
      (case fst x of
         Get url bearer params \<Rightarrow> list_ex (grants bearer) (earlier @ xs)
       | Post url payload \<Rightarrow> True))"
  by (induction xs arbitrary: earlier) (auto split: request.splits)

lemma grants_refresh:
  "status_code resp = 200 \<Longrightarrow> json_body resp = Some data \<Longrightarrow>
   subscript data ''access_token'' = Inr tok \<Longrightarrow> grants tok (refresh_request c, resp)"
  by (simp add: grants_def refresh_request_def)

lemma refresh_keeps_inv:
  assumes inv: "lifetime_inv c0 c w" and c0: "token_expires_at c0 = JInt 0"
      and clk: "\<forall>k. - 300 \<le> clock w k"
      and run: "refresh_access_token_if_needed c w = (r, c', w')"
  shows "lifetime_inv c0 c' w' \<and> (r = Inr () \<longrightarrow> list_ex (grants (access_token c')) (exchanges w'))"
proof (cases "exchanges w' = exchanges w \<and> c' = c")
  case True
  have "r = Inr () \<longrightarrow> list_ex (grants (access_token c)) (exchanges w)"
  proof
    assume ok: "r = Inr ()"
    show "list_ex (grants (access_token c)) (exchanges w)"
    proof (rule ccontr)
      assume "\<not> list_ex (grants (access_token c)) (exchanges w)"
      with inv have z: "token_expires_at c = JInt 0"
        by (auto simp: lifetime_inv_def)
      from clk have "- 300 \<le> clock w (ticks w)" by blast
      with z run ok True show False
        by (auto simp: refresh_access_token_if_needed_def time_time_def http_def Let_def
              response_json_def
              split: sum.splits if_splits prod.splits option.splits)
    qed
  qed
  with inv True show ?thesis
    by (simp add: lifetime_inv_def)
next
  case False
  let ?resp = "upstream w (exchanges w) (refresh_request c)"
  from False run have ex: "exchanges w' = exchanges w @ [(refresh_request c, ?resp)]"
    by (auto simp: refresh_access_token_if_needed_def time_time_def http_def Let_def
          split: sum.splits if_splits prod.splits)
  have bg: "bearers_granted [] (exchanges w')"
    using inv ex by (simp add: lifetime_inv_def bearers_granted_snoc refresh_request_def)
  have first: "fst (hd (exchanges w')) = refresh_request c0"
    using inv ex by (cases "exchanges w") (auto simp: lifetime_inv_def)
  have tok: "token_expires_at c' = JInt 0 \<or> list_ex (grants (access_token c')) (exchanges w')"
  proof (cases "access_token c' = access_token c \<and> token_expires_at c' = token_expires_at c")
    case True
    with inv ex show ?thesis
      by (auto simp: lifetime_inv_def)
  next
    case False
    with run have "status_code ?resp = 200 \<and> (\<exists>data. json_body ?resp = Some data
                     \<and> subscript data ''access_token'' = Inr (access_token c'))"
      by (auto simp: refresh_access_token_if_needed_def time_time_def http_def Let_def
            response_json_def
            split: sum.splits if_splits prod.splits option.splits)
    then have "grants (access_token c') (refresh_request c, ?resp)"
      by (auto intro: grants_refresh)
    with ex show ?thesis by simp
  qed
  have ok: "r = Inr () \<longrightarrow> list_ex (grants (access_token c')) (exchanges w')"
  proof
    assume "r = Inr ()"
    with run False have "status_code ?resp = 200 \<and> (\<exists>data. json_body ?resp = Some data
                     \<and> subscript data ''access_token'' = Inr (access_token c'))"
      by (auto simp: refresh_access_token_if_needed_def time_time_def http_def Let_def
            response_json_def
            split: sum.splits if_splits prod.splits option.splits)
    then have "grants (access_token c') (refresh_request c, ?resp)"
      by (auto intro: grants_refresh)
    with ex show "list_ex (grants (access_token c')) (exchanges w')" by simp
  qed
  from bg first tok ok ex show ?thesis
    by (simp add: lifetime_inv_def)
qed

lemma data_request_bearer:
  "\<exists>url params. data_request call c = Get url (access_token c) params"
  by (cases call) (simp_all add: activities_request_def athlete_request_def activity_request_def)

lemma perform_keeps_inv:
  assumes inv: "lifetime_inv c0 c w" and c0: "token_expires_at c0 = JInt 0"
      and clk: "\<forall>k. - 300 \<le> clock w k"
      and run: "perform call c w = (r, c', w')"
  shows "lifetime_inv c0 c' w' \<and> clock w' = clock w"
proof -
  obtain r0 c1 w1 where rf: "refresh_access_token_if_needed c w = (r0, c1, w1)"
    by (metis prod_cases3)
  from refresh_keeps_inv [OF inv c0 clk rf]
  have inv1: "lifetime_inv c0 c1 w1"
    and granted: "r0 = Inr () \<longrightarrow> list_ex (grants (access_token c1)) (exchanges w1)"
    by simp_all
  from refresh_world [OF rf] have clk1: "clock w1 = clock w" by simp
  show ?thesis
  proof (cases r0)
    case (Inl e)
    with rf perform_refresh_raised [of c w e c1 w1 call] run inv1 clk1 show ?thesis
      by simp
  next
    case (Inr u)
    with granted have g: "list_ex (grants (access_token c1)) (exchanges w1)" by simp
    then have ne: "exchanges w1 \<noteq> []" by auto
    from rf Inr perform_refresh_returned [of c w u c1 w1 call] run
    have c': "c' = c1"
      and w': "w' = w1\<lparr>exchanges := exchanges w1 @
                 [(data_request call c1, upstream w1 (exchanges w1) (data_request call c1))]\<rparr>"
      by auto
    from data_request_bearer [of call c1] obtain url params where
      req: "data_request call c1 = Get url (access_token c1) params" by blast
    from inv1 g ne have "lifetime_inv c0 c1 (w1\<lparr>exchanges := exchanges w1 @
                 [(data_request call c1, upstream w1 (exchanges w1) (data_request call c1))]\<rparr>)"
      by (auto simp: lifetime_inv_def bearers_granted_snoc req)
    with c' w' clk1 show ?thesis by simp
  qed
qed

lemma get_activities_keeps_inv:
  assumes "lifetime_inv c0 c w" and "token_expires_at c0 = JInt 0"
      and "\<forall>k. - 300 \<le> clock w k"
      and "get_activities c w limit before after activity_type page = (r, c', w')"
  shows "lifetime_inv c0 c' w' \<and> clock w' = clock w"
  using perform_keeps_inv [OF assms(1-3),
          of "Call_get_activities limit before after activity_type page" r c' w'] assms(4)
  by simp

lemma loop_keeps_inv:
  assumes "lifetime_inv c0 c w" and "token_expires_at c0 = JInt 0"
      and "\<forall>k. - 300 \<le> clock w k"
      and "get_all_loop c w b a t mp page all_activities = (r, c', w')"
  shows "lifetime_inv c0 c' w' \<and> clock w' = clock w"
  using assms
proof (induction "nat (mp + 1 - page)" arbitrary: c w page all_activities rule: less_induct)
  case less
  from loop_cases [OF less.prems(4)] show ?case
  proof (elim disjE conjE exE)
    assume "c' = c" "w' = w"
    with less.prems(1) show ?thesis by simp
  next
    fix r1 c1 w1
    assume "get_activities c w 100 (Some b) (Some a) None page = (r1, c1, w1)"
      and "c' = c1" "w' = w1"
    with get_activities_keeps_inv [OF less.prems(1-3)] show ?thesis by simp
  next
    fix r1 c1 w1 xs
    assume le: "page \<le> mp"
      and ga: "get_activities c w 100 (Some b) (Some a) None page = (r1, c1, w1)"
      and rec: "get_all_loop c1 w1 b a t mp (page + 1) (all_activities @ xs) = (r, c', w')"
    from get_activities_keeps_inv [OF less.prems(1-3) ga]
    have inv1: "lifetime_inv c0 c1 w1" and clk1: "clock w1 = clock w" by simp_all
    from clk1 less.prems(3) have clk: "\<forall>k. - 300 \<le> clock w1 k" by simp
    from le have "nat (mp + 1 - (page + 1)) < nat (mp + 1 - page)" by simp
    from less.hyps [OF this inv1 less.prems(2) clk rec] clk1 show ?thesis by simp
  qed
qed

lemma invoke_keeps_inv:
  assumes inv: "lifetime_inv c0 c w" and c0: "token_expires_at c0 = JInt 0"
      and clk: "\<forall>k. - 300 \<le> clock w k"
      and run: "invoke call (Some c) w = (r, sc', w')"
  shows "\<exists>c'. sc' = Some c' \<and> lifetime_inv c0 c' w' \<and> clock w' = clock w"
proof (cases call)
  case (Recent_activities limit)
  with run get_activities_keeps_inv [OF inv c0 clk] show ?thesis
    by (auto simp: get_recent_activities_def split: prod.splits)
next
  case (Activities_by_date_range s e t)
  with run get_activities_keeps_inv [OF inv c0 clk] inv show ?thesis
    by (auto simp: tool_get_activities_by_date_range_def get_activities_by_date_range_def
          split: prod.splits sum.splits)
next
  case (All_activities_in_year y t)
  with run loop_keeps_inv [OF inv c0 clk] inv show ?thesis
    by (auto simp: get_all_activities_in_year_def get_all_activities_by_date_range_def Let_def
          split: prod.splits sum.splits)
next
  case Available_activity_types
  with run get_activities_keeps_inv [OF inv c0 clk] show ?thesis
    by (auto simp: get_available_activity_types_def get_activity_types_def
          split: prod.splits sum.splits)
next
  case Athlete_profile
  with run perform_keeps_inv [OF inv c0 clk, of Call_get_athlete] show ?thesis
    by (auto simp: get_athlete_profile_def split: prod.splits)
next
  case (Activity_details i)
  with run perform_keeps_inv [OF inv c0 clk, of "Call_get_activity_by_id i"] show ?thesis
    by (auto simp: get_activity_details_def split: prod.splits)
qed

lemma serve_keeps_inv:
  assumes "lifetime_inv c0 c w" and "token_expires_at c0 = JInt 0"
      and "\<forall>k. - 300 \<le> clock w k"
      and "serve calls (Some c) w = (sc', w')"
  shows "\<exists>c'. sc' = Some c' \<and> lifetime_inv c0 c' w'"
  using assms
proof (induction calls arbitrary: c w)
  case Nil
  then show ?case by auto
next
  case (Cons call calls)
  obtain r sc1 w1 where step: "invoke call (Some c) w = (r, sc1, w1)"
    by (metis prod_cases3)
  from invoke_keeps_inv [OF Cons.prems(1-3) step] obtain c1 where
    c1: "sc1 = Some c1" "lifetime_inv c0 c1 w1" "clock w1 = clock w" by blast
  from Cons.prems(4) step c1(1) have rest: "serve calls (Some c1) w1 = (sc', w')" by simp
  from c1(3) Cons.prems(3) have "\<forall>k. - 300 \<le> clock w1 k" by simp
  from Cons.IH [OF c1(2) Cons.prems(2) this rest] show ?case .
qed

text \<open>
  C10, as the code has it. A process starts with the client that \<^verbatim>\<open>app_lifespan\<close> builds
  from the four values of the environment, and has sent nothing yet; its clock never shows
  a time before -300, as a count of seconds since 1970 does not. Then, whatever tools are
  called and in whatever order, the first request the process sends is the refresh request
  built from the environment's values, and every \<^verbatim>\<open>GET\<close> it sends bears an access token
  that an earlier refresh exchange of the same process returned with status 200.
\<close>

theorem requests_bear_refreshed_tokens:
  assumes "\<forall>k. - 300 \<le> clock w k"
      and "exchanges w = []"
      and "serve calls (app_lifespan_enter tok rt cid cs) w = (strava_client, w')"
  shows "bearers_granted [] (exchanges w')
       \<and> (exchanges w' \<noteq> [] \<longrightarrow>
            fst (hd (exchanges w')) = refresh_request (StravaClient tok rt cid cs))"
proof -
  let ?c0 = "StravaClient tok rt cid cs"
  have z: "token_expires_at ?c0 = JInt 0"
    by (simp add: StravaClient_def)
  have start: "lifetime_inv ?c0 ?c0 w"
    using assms(2) z by (simp add: lifetime_inv_def)
  from assms(3) have "serve calls (Some ?c0) w = (strava_client, w')"
    by (simp add: app_lifespan_enter_def)
  from serve_keeps_inv [OF start z assms(1) this] show ?thesis
    by (auto simp: lifetime_inv_def)
qed

theorem requests_bear_refreshed_tokens_witness:
  "(\<forall>k. - 300 \<le> clock (fixture_world 1000 (granting_server not_found)) k)
   \<and> exchanges (fixture_world 1000 (granting_server not_found)) = []
   \<and> serve [Athlete_profile]
        (app_lifespan_enter (JStr ''A0'') (JStr ''R0'') (JStr ''id'') (JStr ''secret''))
        (fixture_world 1000 (granting_server not_found)) =
       (Some refreshed_client,
        (fixture_world 1000 (granting_server not_found))
          \<lparr>ticks := 1,
           exchanges := [(refresh_request fixture_client, token_grant),
                         (athlete_request refreshed_client, not_found)]\<rparr>)
   \<and> access_token refreshed_client = JStr ''A1''
   \<and> bearers_granted []
        [(refresh_request fixture_client, token_grant),
         (athlete_request refreshed_client, not_found)]"
proof -
  let ?w = "fixture_world 1000 (granting_server not_found)"
  let ?w' = "?w\<lparr>ticks := 1,
           exchanges := [(refresh_request fixture_client, token_grant),
                         (athlete_request refreshed_client, not_found)]\<rparr>"
  have clk: "\<forall>k. - 300 \<le> clock ?w k" and start: "exchanges ?w = []"
    by (simp_all add: fixture_world_def)
  have run: "serve [Athlete_profile]
        (app_lifespan_enter (JStr ''A0'') (JStr ''R0'') (JStr ''id'') (JStr ''secret'')) ?w =
       (Some refreshed_client, ?w')"
    using fixture_get_athlete [of not_found]
    by (simp add: app_lifespan_enter_def get_athlete_profile_def fixture_client_def)
  have tok: "access_token refreshed_client = JStr ''A1''"
    by (simp add: refreshed_client_def)
  from requests_bear_refreshed_tokens [OF clk start run]
  have "bearers_granted [] (exchanges ?w')" by blast
  then have "bearers_granted []
        [(refresh_request fixture_client, token_grant),
         (athlete_request refreshed_client, not_found)]"
    by (simp add: fixture_world_def del: bearers_granted.simps)
  with clk start run tok show ?thesis by blast
qed

lemma fixture_refresh_echoed:
  "refresh_access_token_if_needed fixture_client (fixture_world 1000 (echoing_server answer)) =
     (Inr (),
      fixture_client\<lparr>access_token := JStr ''A0'', refresh_token := JStr ''R1'',
                      token_expires_at := JInt 5000\<rparr>,
      (fixture_world 1000 (echoing_server answer))
        \<lparr>ticks := 1, exchanges := [(refresh_request fixture_client, echo_grant)]\<rparr>)"
  using refresh_ok [OF fixture_margin, of "fixture_world 1000 (echoing_server answer)" echo_grant
                      _ "JStr ''A0''" "JStr ''R1''" "JInt 5000"]
  by (simp add: fixture_world_def refresh_request_def echo_grant_def)

text \<open>
  C10, as the claim has it, fails: the access token of the environment does authenticate
  a request when the refresh answer returns that same token. The process starts with the
  access token \<^verbatim>\<open>A0\<close>; the provider answers the refresh with \<^verbatim>\<open>A0\<close> again, and the
  \<^verbatim>\<open>GET\<close> that follows bears \<^verbatim>\<open>A0\<close>.
\<close>

theorem environment_token_sent_when_echoed:
  "access_token (StravaClient (JStr ''A0'') (JStr ''R0'') (JStr ''id'') (JStr ''secret'')) = JStr ''A0''
   \<and> exchanges (snd (serve [Athlete_profile]
        (app_lifespan_enter (JStr ''A0'') (JStr ''R0'') (JStr ''id'') (JStr ''secret''))
        (fixture_world 1000 (echoing_server not_found)))) =
       [(refresh_request fixture_client, echo_grant),
        (Get ''https://www.strava.com/api/v3/athlete'' (JStr ''A0'') [], not_found)]"
proof -
  have "get_athlete fixture_client (fixture_world 1000 (echoing_server not_found)) =
     (response_json not_found,
      fixture_client\<lparr>access_token := JStr ''A0'', refresh_token := JStr ''R1'',
                      token_expires_at := JInt 5000\<rparr>,
      (fixture_world 1000 (echoing_server not_found))
        \<lparr>ticks := 1,
         exchanges := [(refresh_request fixture_client, echo_grant),
                       (Get ''https://www.strava.com/api/v3/athlete'' (JStr ''A0'') [],
                        not_found)]\<rparr>)"
    unfolding get_athlete_def fixture_refresh_echoed
    by (simp add: http_def Let_def fixture_world_def athlete_request_def fixture_client_def
          StravaClient_def split: sum.splits)
  then show ?thesis
    by (simp add: app_lifespan_enter_def get_athlete_profile_def fixture_client_def
          StravaClient_def)
qed

end
